theory Spec2Isabelle
  imports Complex_Main "HOL-Library.Char_ord" "HOL-Library.Sublist"
begin

section \<open>FLICA schedule-detail parser: strings, patterns and the document tree\<close>

text \<open>
  The development embeds the two parsers of the repository: the server-side parser
  (\<^verbatim>\<open>parser.ts\<close>, over a cheerio tree) and the script returned by
  \<^verbatim>\<open>getScheduleParserScript\<close> (over the browser DOM).

  Modelling decisions.
  \<^item> A JavaScript string is a \<^typ>\<open>string\<close>; one \<^typ>\<open>char\<close> stands for one code unit
    in the range 0..255, so the non-breaking space is \<open>CHR 0xA0\<close>. Code units above 255
    are outside the model.
  \<^item> A number that comes from \<^verbatim>\<open>parseInt\<close> is an \<^typ>\<open>int option\<close>, \<open>None\<close> being
    \<^verbatim>\<open>NaN\<close>; the value is exact, as it is in JavaScript below \<open>2^53\<close>.
  \<^item> The parsed document is a tree of text nodes and elements; an element has a
    lower-case tag name, its attributes in source order and its children. Building the
    tree from markup text is the document loader's work and is not modelled.
  \<^item> Neither parser has a \<^verbatim>\<open>throw\<close>, and every property read that could be
    \<^verbatim>\<open>undefined\<close> is guarded in the source (\<^verbatim>\<open>$(undefined).text()\<close> is the empty
    string in cheerio; the script tests the cell before reading it). The functions below
    are therefore total, and the guarded reads are written out as \<open>cellText\<close>.
\<close>

subsection \<open>Character classes and string helpers\<close>

definition isDigit :: "char \<Rightarrow> bool" where
  \<comment> \<open>\<^verbatim>\<open>\d\<close>\<close>
  "isDigit c \<longleftrightarrow> CHR ''0'' \<le> c \<and> c \<le> CHR ''9''"

definition isUpper :: "char \<Rightarrow> bool" where
  \<comment> \<open>\<^verbatim>\<open>[A-Z]\<close>\<close>
  "isUpper c \<longleftrightarrow> CHR ''A'' \<le> c \<and> c \<le> CHR ''Z''"

definition isLower :: "char \<Rightarrow> bool" where
  "isLower c \<longleftrightarrow> CHR ''a'' \<le> c \<and> c \<le> CHR ''z''"

definition isWord :: "char \<Rightarrow> bool" where
  \<comment> \<open>\<^verbatim>\<open>\w\<close>\<close>
  "isWord c \<longleftrightarrow> isUpper c \<or> isLower c \<or> isDigit c \<or> c = CHR ''_''"

definition isSpace :: "char \<Rightarrow> bool" where
  \<comment> \<open>\<^verbatim>\<open>\s\<close>, and what \<^verbatim>\<open>String.prototype.trim\<close> strips: TAB, LF, VT, FF, CR, space, NBSP\<close>
  "isSpace c \<longleftrightarrow> c \<in> set [CHR 0x09, CHR 0x0A, CHR 0x0B, CHR 0x0C, CHR 0x0D, CHR 0x20, CHR 0xA0]"

definition isLineTerminator :: "char \<Rightarrow> bool" where
  "isLineTerminator c \<longleftrightarrow> c = CHR 0x0A \<or> c = CHR 0x0D"

definition isDot :: "char \<Rightarrow> bool" where
  \<comment> \<open>\<^verbatim>\<open>.\<close> without the \<^verbatim>\<open>s\<close> flag\<close>
  "isDot c \<longleftrightarrow> \<not> isLineTerminator c"

definition isNameChar :: "char \<Rightarrow> bool" where
  \<comment> \<open>\<^verbatim>\<open>[\w\s,]\<close>\<close>
  "isNameChar c \<longleftrightarrow> isWord c \<or> isSpace c \<or> c = CHR '',''"

definition trim :: "string \<Rightarrow> string" where
  \<comment> \<open>\<^verbatim>\<open>s.trim()\<close>; the script's \<^verbatim>\<open>trim(s)\<close> replaces \<^verbatim>\<open>/^\s+|\s+$/g\<close> by nothing\<close>
  "trim s = rev (dropWhile isSpace (rev (dropWhile isSpace s)))"

definition toLowerChar :: "char \<Rightarrow> char" where
  "toLowerChar c =
     (if isUpper c \<or> (CHR 0xC0 \<le> c \<and> c \<le> CHR 0xDE \<and> c \<noteq> CHR 0xD7)
      then char_of (of_char c + (32::nat)) else c)"

definition toLowerCase :: "string \<Rightarrow> string" where
  "toLowerCase s = map toLowerChar s"

definition toUpperAscii :: "char \<Rightarrow> char" where
  "toUpperAscii c = (if isLower c then char_of (of_char c - (32::nat)) else c)"

fun strIncludes :: "string \<Rightarrow> string \<Rightarrow> bool" where
  \<comment> \<open>\<^verbatim>\<open>s.includes(t)\<close>, \<^verbatim>\<open>s.indexOf(t) >= 0\<close>\<close>
  "strIncludes [] t = (t = [])"
| "strIncludes (c # cs) t = (prefix t (c # cs) \<or> strIncludes cs t)"

definition startsWith :: "string \<Rightarrow> string \<Rightarrow> bool" where
  "startsWith s t = prefix t s"

fun splitOn :: "char \<Rightarrow> string \<Rightarrow> string list" where
  \<comment> \<open>\<^verbatim>\<open>s.split('-')\<close>: always at least one part\<close>
  "splitOn d [] = [[]]"
| "splitOn d (c # cs) =
     (if c = d then [] # splitOn d cs
      else (case splitOn d cs of p # ps \<Rightarrow> (c # p) # ps | [] \<Rightarrow> [[c]]))"

definition nthOr :: "'a \<Rightarrow> 'a list \<Rightarrow> nat \<Rightarrow> 'a" where
  \<comment> \<open>an indexed read with a default for an index out of range\<close>
  "nthOr d xs i = (if i < length xs then xs ! i else d)"

fun firstSome :: "'a option list \<Rightarrow> 'a option" where
  "firstSome [] = None"
| "firstSome (None # xs) = firstSome xs"
| "firstSome (Some x # xs) = Some x"

subsection \<open>Numbers\<close>

definition digitVal :: "char \<Rightarrow> int" where
  "digitVal c = int (of_char c) - 48"

definition digitsVal :: "string \<Rightarrow> int" where
  "digitsVal ds = foldl (\<lambda>a c. 10 * a + digitVal c) 0 ds"

definition parseInt10 :: "string \<Rightarrow> int option" where
  \<comment> \<open>\<^verbatim>\<open>parseInt(s, 10)\<close>: leading white space, an optional sign, then the longest run
      of digits; \<^verbatim>\<open>NaN\<close> (\<open>None\<close>) when there is no digit\<close>
  "parseInt10 s =
     (let t = dropWhile isSpace s;
          neg = (t \<noteq> [] \<and> hd t = CHR ''-'');
          u = (if t \<noteq> [] \<and> (hd t = CHR ''-'' \<or> hd t = CHR ''+'') then tl t else t);
          ds = takeWhile isDigit u
      in if ds = [] then None else Some (if neg then - digitsVal ds else digitsVal ds))"

definition jsStrictNeq :: "int option \<Rightarrow> int option \<Rightarrow> bool" where
  \<comment> \<open>\<^verbatim>\<open>a !== b\<close> on numbers: \<^verbatim>\<open>NaN\<close> differs from everything, itself included\<close>
  "jsStrictNeq a b = (case (a, b) of (Some x, Some y) \<Rightarrow> x \<noteq> y | _ \<Rightarrow> True)"

definition digitChar :: "nat \<Rightarrow> char" where
  \<comment> \<open>the character of a decimal digit\<close>
  "digitChar d = char_of (48 + d)"

fun natDigits :: "nat \<Rightarrow> string" where
  "natDigits n =
     (if n < 10 then [digitChar n]
      else natDigits (n div 10) @ [digitChar (n mod 10)])"

definition numToString :: "int \<Rightarrow> string" where
  \<comment> \<open>\<^verbatim>\<open>String(n)\<close> and \<^verbatim>\<open>'' + n\<close> for an integer\<close>
  "numToString n = (if n < 0 then CHR ''-'' # natDigits (nat (- n)) else natDigits (nat n))"

subsection \<open>Regular expressions\<close>

text \<open>
  The patterns of the source are sequences of literals and quantified character classes
  with capture groups that are not nested. \<open>rxMatch\<close> is the backtracking matcher of
  JavaScript on such a sequence, at one start position: a greedy quantifier tries the
  longest run first, a lazy one the shortest, and the first alternative under which the
  rest of the pattern matches is taken. It returns the captures in order.
\<close>

datatype rxItem =
    Lit string
  | LitI string
  | Rep "char \<Rightarrow> bool" nat "nat option" bool
  | GOpen
  | GClose
  | Eos
  | Eol

fun rxMatch :: "rxItem list \<Rightarrow> string \<Rightarrow> string list \<Rightarrow> string option \<Rightarrow> (string list \<times> string) option" where
  "rxMatch [] s caps cur = Some (caps, s)"
| "rxMatch (Lit l # r) s caps cur =
     (if prefix l s then rxMatch r (drop (length l) s) caps (map_option (\<lambda>c. c @ l) cur)
      else None)"
| "rxMatch (LitI l # r) s caps cur =
     (if length l \<le> length s \<and> map toUpperAscii (take (length l) s) = map toUpperAscii l
      then rxMatch r (drop (length l) s) caps (map_option (\<lambda>c. c @ take (length l) s) cur)
      else None)"
| "rxMatch (Rep p mn mx greedy # r) s caps cur =
     (let avail = length (takeWhile p s);
          hi = (case mx of None \<Rightarrow> avail | Some m \<Rightarrow> min m avail);
          counts = (if greedy then rev [mn..<Suc hi] else [mn..<Suc hi])
      in firstSome (map (\<lambda>n. rxMatch r (drop n s) caps (map_option (\<lambda>c. c @ take n s) cur)) counts))"
| "rxMatch (GOpen # r) s caps cur = rxMatch r s caps (Some [])"
| "rxMatch (GClose # r) s caps cur =
     rxMatch r s (caps @ [case cur of None \<Rightarrow> [] | Some c \<Rightarrow> c]) None"
| "rxMatch (Eos # r) s caps cur = (if s = [] then rxMatch r s caps cur else None)"
| "rxMatch (Eol # r) s caps cur =
     (if s = [] \<or> isLineTerminator (hd s) then rxMatch r s caps cur else None)"

definition matchStart :: "rxItem list \<Rightarrow> string \<Rightarrow> string list option" where
  \<comment> \<open>a pattern that begins with \<^verbatim>\<open>^\<close> (no \<^verbatim>\<open>m\<close> flag): only position 0 is tried\<close>
  "matchStart rx s = map_option fst (rxMatch rx s [] None)"

fun suffixesOf :: "string \<Rightarrow> string list" where
  "suffixesOf [] = [[]]"
| "suffixesOf (c # cs) = (c # cs) # suffixesOf cs"

definition matchSearch :: "rxItem list \<Rightarrow> string \<Rightarrow> string list option" where
  \<comment> \<open>\<^verbatim>\<open>s.match(re)\<close> for an unanchored pattern: the leftmost start position that matches\<close>
  "matchSearch rx s = firstSome (map (\<lambda>t. map_option fst (rxMatch rx t [] None)) (suffixesOf s))"

definition many :: "(char \<Rightarrow> bool) \<Rightarrow> rxItem" where
  \<comment> \<open>\<^verbatim>\<open>c*\<close>\<close>
  "many p = Rep p 0 None True"

definition many1 :: "(char \<Rightarrow> bool) \<Rightarrow> rxItem" where
  \<comment> \<open>\<^verbatim>\<open>c+\<close>\<close>
  "many1 p = Rep p 1 None True"

definition lazy1 :: "(char \<Rightarrow> bool) \<Rightarrow> rxItem" where
  \<comment> \<open>\<^verbatim>\<open>c+?\<close>\<close>
  "lazy1 p = Rep p 1 None False"

definition exactly :: "nat \<Rightarrow> (char \<Rightarrow> bool) \<Rightarrow> rxItem" where
  \<comment> \<open>\<^verbatim>\<open>c{n}\<close>\<close>
  "exactly n p = Rep p n (Some n) True"

definition opt :: "char \<Rightarrow> rxItem" where
  \<comment> \<open>\<^verbatim>\<open>c?\<close>\<close>
  "opt c = Rep (\<lambda>x. x = c) 0 (Some 1) True"

definition between :: "nat \<Rightarrow> nat \<Rightarrow> (char \<Rightarrow> bool) \<Rightarrow> rxItem" where
  \<comment> \<open>\<^verbatim>\<open>c{m,n}\<close>\<close>
  "between m n p = Rep p m (Some n) True"

subsection \<open>The document tree\<close>

datatype node = TextNode string | Element string "(string \<times> string) list" "node list"

fun textContent :: "node \<Rightarrow> string" where
  \<comment> \<open>cheerio's \<^verbatim>\<open>.text()\<close> of one element, the DOM's \<^verbatim>\<open>textContent\<close>\<close>
  "textContent (TextNode s) = s"
| "textContent (Element t as cs) = concat (map textContent cs)"

fun descendants :: "node \<Rightarrow> node list" where
  \<comment> \<open>the element descendants in document order, the node itself excluded\<close>
  "descendants (TextNode s) = []"
| "descendants (Element t as cs) =
     concat (map (\<lambda>c. case c of TextNode s \<Rightarrow> [] | Element t' as' cs' \<Rightarrow> c # descendants c) cs)"

fun tagOf :: "node \<Rightarrow> string" where
  "tagOf (TextNode s) = []"
| "tagOf (Element t as cs) = t"

fun attr :: "node \<Rightarrow> string \<Rightarrow> string option" where
  \<comment> \<open>\<^verbatim>\<open>.attr(name)\<close>, \<^verbatim>\<open>getAttribute(name)\<close>\<close>
  "attr (TextNode s) n = None"
| "attr (Element t as cs) n = map_of as n"

fun childElements :: "node \<Rightarrow> node list" where
  "childElements (TextNode s) = []"
| "childElements (Element t as cs) =
     filter (\<lambda>c. case c of TextNode s \<Rightarrow> False | Element t' as' cs' \<Rightarrow> True) cs"

definition isTag :: "string \<Rightarrow> node \<Rightarrow> bool" where
  "isTag t n \<longleftrightarrow> tagOf n = t"

definition findTag :: "string \<Rightarrow> node \<Rightarrow> node list" where
  \<comment> \<open>\<^verbatim>\<open>$(n).find('td')\<close>, \<^verbatim>\<open>n.querySelectorAll('td')\<close>\<close>
  "findTag t n = filter (isTag t) (descendants n)"

definition childrenTag :: "string \<Rightarrow> node \<Rightarrow> node list" where
  \<comment> \<open>\<^verbatim>\<open>.children('table')\<close>, \<^verbatim>\<open>querySelectorAll(':scope > table')\<close>\<close>
  "childrenTag t n = filter (isTag t) (childElements n)"

fun splitWs :: "string \<Rightarrow> string \<Rightarrow> string list" where
  \<comment> \<open>the white-space separated tokens of a class attribute; the second argument is the
      token being read\<close>
  "splitWs [] acc = (if acc = [] then [] else [acc])"
| "splitWs (c # cs) acc =
     (if isSpace c then (if acc = [] then splitWs cs [] else acc # splitWs cs [])
      else splitWs cs (acc @ [c]))"

definition hasClass :: "string \<Rightarrow> node \<Rightarrow> bool" where
  \<comment> \<open>\<^verbatim>\<open>$row.hasClass(c)\<close>, \<^verbatim>\<open>row.classList.contains(c)\<close>, the selector \<^verbatim>\<open>tr.c\<close>\<close>
  "hasClass c n = (case attr n ''class'' of None \<Rightarrow> False | Some v \<Rightarrow> c \<in> set (splitWs v []))"

definition cellText :: "node list \<Rightarrow> nat \<Rightarrow> string" where
  \<comment> \<open>\<^verbatim>\<open>$(cells[i]).text().trim()\<close>, \<^verbatim>\<open>trim(cells[i] ? cells[i].textContent : '')\<close>:
      the empty string when there is no such cell\<close>
  "cellText cells i = (if i < length cells then trim (textContent (cells ! i)) else [])"


section \<open>The server-side parser (\<^verbatim>\<open>parser.ts\<close>)\<close>

subsection \<open>The data model (\<^verbatim>\<open>types.ts\<close>)\<close>

record FlightLeg =
  dayOfWeek :: string
  dayOfMonth :: "int option"
  isDeadhead :: bool
  positionCode :: string
  flightNumber :: string
  origin :: string
  destination :: string
  departureLocal :: string
  arrivalLocal :: string
  blockTime :: string
  groundTime :: string

record Layover =
  airport :: string
  restTime :: string
  hotelName :: string
  hotelPhone :: string
  dutyEndLocal :: string
  reportLocal :: string

record DutyPeriod =
  legs :: "FlightLeg list"
  totalBlock :: string
  totalDeadhead :: string
  totalCredit :: string
  totalDutyFdp :: string
  layover :: "Layover option"

record CrewMember =
  position :: string
  employeeNumber :: string
  name :: string

record Totals =
  block :: string
  deadhead :: string
  credit :: string
  dutyFdp :: string

record Trip =
  tripNumber :: string
  dateStr :: string
  date :: string
  frequency :: string
  baseReportTime :: string
  operatingDates :: string
  base :: string
  equipment :: string
  crewComposition :: string
  exceptions :: string
  dutyPeriods :: "DutyPeriod list"
  tafb :: string
  tripRig :: string
  totals :: Totals
  crew :: "CrewMember list"

subsection \<open>\<^verbatim>\<open>parseDutyPeriods\<close>: the row scan\<close>

text \<open>
  The local variables of \<^verbatim>\<open>parseDutyPeriods\<close> that the row callback assigns. The
  fields \<open>st_\<close>... are the source's \<^verbatim>\<open>dutyPeriods\<close>, \<^verbatim>\<open>totalBlock\<close>,
  \<^verbatim>\<open>totalDeadhead\<close>, \<^verbatim>\<open>totalCredit\<close> and \<^verbatim>\<open>totalDutyFdp\<close>.
\<close>

record scanState =
  st_dutyPeriods :: "DutyPeriod list"
  currentLegs :: "FlightLeg list"
  currentLayover :: "Layover option"
  lastDayOfMonth :: "int option"
  st_totalBlock :: string
  st_totalDeadhead :: string
  st_totalCredit :: string
  st_totalDutyFdp :: string

definition initState :: scanState where
  "initState = \<lparr>st_dutyPeriods = [], currentLegs = [], currentLayover = None,
     lastDayOfMonth = Some 0, st_totalBlock = [], st_totalDeadhead = [],
     st_totalCredit = [], st_totalDutyFdp = []\<rparr>"

definition layoverRx :: "rxItem list" where
  \<comment> \<open>\<^verbatim>\<open>/^([A-Z]{3})\s+(\d{4})$/\<close>\<close>
  "layoverRx = [GOpen, exactly 3 isUpper, GClose, many1 isSpace, GOpen, exactly 4 isDigit, GClose, Eos]"

definition dendRx :: "rxItem list" where
  \<comment> \<open>\<^verbatim>\<open>/D-END:\s*(\d{4}L?)/\<close>\<close>
  "dendRx = [Lit ''D-END:'', many isSpace, GOpen, exactly 4 isDigit, opt CHR ''L'', GClose]"

definition reptRx :: "rxItem list" where
  \<comment> \<open>\<^verbatim>\<open>/REPT:\s*(\d{4}L?)/\<close>\<close>
  "reptRx = [Lit ''REPT:'', many isSpace, GOpen, exactly 4 isDigit, opt CHR ''L'', GClose]"

definition boldRow :: "scanState \<Rightarrow> node \<Rightarrow> scanState" where
  \<comment> \<open>the totals row: every cell whose text is \<^verbatim>\<open>Total:\<close> assigns the four totals\<close>
  "boldRow st row =
     (let cells = findTag ''td'' row
      in foldl (\<lambda>s ci. if cellText cells ci = ''Total:''
                        then s\<lparr>st_totalBlock := cellText cells (ci + 1),
                               st_totalDeadhead := cellText cells (ci + 2),
                               st_totalCredit := cellText cells (ci + 4),
                               st_totalDutyFdp := cellText cells (ci + 5)\<rparr>
                        else s) st [0..<length cells])"

definition closesPeriod :: "scanState \<Rightarrow> int option \<Rightarrow> bool" where
  \<comment> \<open>\<^verbatim>\<open>currentLegs.length > 0 && dayOfMonth !== lastDayOfMonth && currentLayover\<close>\<close>
  "closesPeriod st day \<longleftrightarrow>
     currentLegs st \<noteq> [] \<and> jsStrictNeq day (lastDayOfMonth st) \<and> currentLayover st \<noteq> None"

definition legOfCells :: "node list \<Rightarrow> FlightLeg" where
  "legOfCells cells =
     (let dhText = cellText cells 2;
          parts = splitOn CHR ''-'' (cellText cells 5)
      in \<lparr>dayOfWeek = cellText cells 0,
          dayOfMonth = parseInt10 (cellText cells 1),
          isDeadhead = (dhText \<noteq> [] \<and> dhText \<noteq> [CHR 0xA0]),
          positionCode = cellText cells 3,
          flightNumber = cellText cells 4,
          origin = nthOr [] parts 0,
          destination = nthOr [] parts 1,
          departureLocal = cellText cells 6,
          arrivalLocal = cellText cells 7,
          blockTime = cellText cells 8,
          groundTime = cellText cells 9\<rparr>)"

definition legRow :: "scanState \<Rightarrow> node \<Rightarrow> scanState" where
  \<comment> \<open>a row of class \<^verbatim>\<open>nowrap\<close>\<close>
  "legRow st row =
     (let cells = findTag ''td'' row
      in if length cells < 10 then st
         else
           let day = parseInt10 (cellText cells 1);
               st1 = (if closesPeriod st day
                      then st\<lparr>st_dutyPeriods := st_dutyPeriods st @
                                 [\<lparr>legs = currentLegs st, totalBlock = [], totalDeadhead = [],
                                   totalCredit = [], totalDutyFdp = [],
                                   layover = currentLayover st\<rparr>],
                               currentLegs := [], currentLayover := None\<rparr>
                      else st);
               st2 = st1\<lparr>lastDayOfMonth := day\<rparr>;
               st3 = st2\<lparr>currentLegs := currentLegs st2 @ [legOfCells cells]\<rparr>
           in case matchStart layoverRx (cellText cells (length cells - 1)) of
                None \<Rightarrow> st3
              | Some caps \<Rightarrow>
                  st3\<lparr>currentLayover := Some \<lparr>airport = nthOr [] caps 0, restTime = nthOr [] caps 1,
                         hotelName = [], hotelPhone = [], dutyEndLocal = [], reportLocal = []\<rparr>\<rparr>)"

definition hotelEligible :: "nat \<Rightarrow> string \<Rightarrow> bool" where
  \<comment> \<open>\<^verbatim>\<open>ci > 1 && text && !text.includes('D-END') && !text.includes('T.A.F.B.')\<close>\<close>
  "hotelEligible ci text \<longleftrightarrow>
     1 < ci \<and> text \<noteq> [] \<and> \<not> strIncludes text ''D-END'' \<and> \<not> strIncludes text ''T.A.F.B.''"

definition hotelCell :: "Layover \<Rightarrow> nat \<times> string \<Rightarrow> Layover" where
  \<comment> \<open>the body of \<^verbatim>\<open>cells.each\<close> in the D-END branch, for cell \<open>ci\<close> with trimmed text \<open>text\<close>\<close>
  "hotelCell lay p =
     (case p of (ci, text) \<Rightarrow>
        if hotelEligible ci text
        then (if \<not> startsWith text ''('' \<and> hotelName lay = [] then lay\<lparr>hotelName := text\<rparr>
              else if startsWith text ''('' then lay\<lparr>hotelPhone := text\<rparr>
              else lay)
        else lay)"

definition cellTexts :: "node \<Rightarrow> string list" where
  \<comment> \<open>the trimmed texts of the row's cells, in order\<close>
  "cellTexts row = map (\<lambda>c. trim (textContent c)) (findTag ''td'' row)"

definition dendRow :: "scanState \<Rightarrow> node \<Rightarrow> scanState" where
  \<comment> \<open>any other row: the D-END / layover detail row\<close>
  "dendRow st row =
     (let rowText = trim (textContent row)
      in case matchSearch dendRx rowText of
           None \<Rightarrow> st
         | Some dend \<Rightarrow>
             (case currentLayover st of
                None \<Rightarrow> st
              | Some lay \<Rightarrow>
                  let lay1 = lay\<lparr>dutyEndLocal := nthOr [] dend 0,
                                 reportLocal := (case matchSearch reptRx rowText of
                                                   None \<Rightarrow> [] | Some rept \<Rightarrow> nthOr [] rept 0)\<rparr>
                  in st\<lparr>currentLayover := Some (foldl hotelCell lay1 (enumerate 0 (cellTexts row)))\<rparr>))"

definition scanRow :: "scanState \<Rightarrow> node \<Rightarrow> scanState" where
  \<comment> \<open>the callback of \<^verbatim>\<open>flightRows.each\<close>\<close>
  "scanRow st row =
     (if hasClass ''main'' row then st
      else if hasClass ''bold'' row then boldRow st row
      else if hasClass ''nowrap'' row then legRow st row
      else dendRow st row)"

definition hasMainRow :: "node \<Rightarrow> bool" where
  \<comment> \<open>\<^verbatim>\<open>$(el).find('tr.main').length > 0\<close>\<close>
  "hasMainRow t \<longleftrightarrow> filter (hasClass ''main'') (findTag ''tr'' t) \<noteq> []"

definition flightTable :: "node \<Rightarrow> node option" where
  \<comment> \<open>the first nested table that has a \<^verbatim>\<open>tr.main\<close> row\<close>
  "flightTable tripTable =
     (case filter hasMainRow (findTag ''table'' tripTable) of [] \<Rightarrow> None | t # ts \<Rightarrow> Some t)"

definition finishScan :: "scanState \<Rightarrow> DutyPeriod list" where
  \<comment> \<open>after the loop: push the last duty period\<close>
  "finishScan st =
     (if currentLegs st \<noteq> []
      then st_dutyPeriods st @
             [\<lparr>legs = currentLegs st, totalBlock = st_totalBlock st,
               totalDeadhead = st_totalDeadhead st, totalCredit = st_totalCredit st,
               totalDutyFdp = st_totalDutyFdp st, layover = None\<rparr>]
      else st_dutyPeriods st)"

definition parseDutyPeriods :: "node \<Rightarrow> DutyPeriod list" where
  "parseDutyPeriods tripTable =
     (case flightTable tripTable of
        None \<Rightarrow> []
      | Some ft \<Rightarrow> finishScan (foldl scanRow initState (findTag ''tr'' ft)))"


subsection \<open>\<^verbatim>\<open>parseTripTotals\<close> and \<^verbatim>\<open>parseCrew\<close>\<close>

definition parseTripTotals :: "node \<Rightarrow> Totals" where
  \<comment> \<open>the cells of the last \<^verbatim>\<open>tr.bold\<close>; no such row, no iteration\<close>
  "parseTripTotals tripTable =
     (let none = \<lparr>block = [], deadhead = [], credit = [], dutyFdp = []\<rparr>
      in case filter (hasClass ''bold'') (findTag ''tr'' tripTable) of
           [] \<Rightarrow> none
         | r # rs \<Rightarrow>
             let cells = findTag ''td'' (last (r # rs))
             in foldl (\<lambda>t ci. if cellText cells ci = ''Total:''
                               then \<lparr>block = cellText cells (ci + 1),
                                     deadhead = cellText cells (ci + 2),
                                     credit = cellText cells (ci + 4),
                                     dutyFdp = cellText cells (ci + 5)\<rparr>
                               else t) none [0..<length cells])"

definition isCrewTable :: "node \<Rightarrow> bool" where
  \<comment> \<open>\<^verbatim>\<open>$(el).find('strong').text().includes('Crew:')\<close>: cheerio joins the texts of all
      the \<^verbatim>\<open>strong\<close> elements found\<close>
  "isCrewTable t \<longleftrightarrow> strIncludes (concat (map textContent (findTag ''strong'' t))) ''Crew:''"

definition crewStep :: "node list \<Rightarrow> CrewMember list \<Rightarrow> nat \<Rightarrow> CrewMember list" where
  \<comment> \<open>the body of the \<^verbatim>\<open>for\<close> loop over the cell index \<open>i\<close>\<close>
  "crewStep cells acc i =
     (let posText = cellText cells i
      in if posText = ''CA'' \<or> posText = ''FO''
         then (let empNum = cellText cells (i + 1);
                   nm = cellText cells (i + 2)
               in if empNum \<noteq> [] \<and> nm \<noteq> []
                  then acc @ [\<lparr>position = posText, employeeNumber = empNum, name = nm\<rparr>]
                  else acc)
         else acc)"

definition crewRow :: "CrewMember list \<Rightarrow> node \<Rightarrow> CrewMember list" where
  \<comment> \<open>one row: \<^verbatim>\<open>for (let i = 0; i < cells.length - 2; i++)\<close>; the bound is negative, and
      the loop empty, for fewer than two cells\<close>
  "crewRow acc row =
     (let cells = findTag ''td'' row in foldl (crewStep cells) acc [0..<length cells - 2])"

definition parseCrew :: "node \<Rightarrow> CrewMember list" where
  "parseCrew tripTable =
     (case filter isCrewTable (findTag ''table'' tripTable) of
        [] \<Rightarrow> []
      | ct # cts \<Rightarrow> foldl crewRow [] (findTag ''tr'' ct))"

subsection \<open>\<^verbatim>\<open>parseTrip\<close>\<close>

definition MONTH_MAP :: "(string \<times> int) list" where
  "MONTH_MAP = [(''JAN'', 1), (''FEB'', 2), (''MAR'', 3), (''APR'', 4), (''MAY'', 5), (''JUN'', 6),
                (''JUL'', 7), (''AUG'', 8), (''SEP'', 9), (''OCT'', 10), (''NOV'', 11), (''DEC'', 12)]"

definition MONTH_NAMES :: "string list" where
  "MONTH_NAMES = [[], ''January'', ''February'', ''March'', ''April'', ''May'', ''June'',
                  ''July'', ''August'', ''September'', ''October'', ''November'', ''December'']"

definition tripRx :: "rxItem list" where
  \<comment> \<open>\<^verbatim>\<open>/^(O\d+)\s*:\s*(\d{2}[A-Z]{3})/\<close>\<close>
  "tripRx = [GOpen, Lit ''O'', many1 isDigit, GClose, many isSpace, Lit '':'', many isSpace,
             GOpen, exactly 2 isDigit, exactly 3 isUpper, GClose]"

definition bseReptRx :: "rxItem list" where
  \<comment> \<open>\<^verbatim>\<open>/BSE REPT:\s*(\d{4}L?)/\<close>\<close>
  "bseReptRx = [Lit ''BSE REPT:'', many isSpace, GOpen, exactly 4 isDigit, opt CHR ''L'', GClose]"

definition operatesRx :: "rxItem list" where
  \<comment> \<open>\<^verbatim>\<open>/Operates:\s*(.+)/\<close>\<close>
  "operatesRx = [Lit ''Operates:'', many isSpace, GOpen, many1 isDot, GClose]"

definition baseEquipRx :: "rxItem list" where
  \<comment> \<open>\<^verbatim>\<open>/Base\/Equip:\s*(\w+)\/(\w+)/\<close>\<close>
  "baseEquipRx = [Lit ''Base/Equip:'', many isSpace, GOpen, many1 isWord, GClose, Lit ''/'',
                  GOpen, many1 isWord, GClose]"

definition exceptOnRx :: "rxItem list" where
  \<comment> \<open>\<^verbatim>\<open>/^EXCEPT ON\s*/i\<close>\<close>
  "exceptOnRx = [LitI ''EXCEPT ON'', many isSpace]"

definition tafbRx :: "rxItem list" where
  \<comment> \<open>\<^verbatim>\<open>/T\.A\.F\.B\.:\s*(\d+)/\<close>\<close>
  "tafbRx = [Lit ''T.A.F.B.:'', many isSpace, GOpen, many1 isDigit, GClose]"

definition rigRx :: "rxItem list" where
  \<comment> \<open>\<^verbatim>\<open>/TRIP RIG:\s*(\d+)/\<close>\<close>
  "rigRx = [Lit ''TRIP RIG:'', many isSpace, GOpen, many1 isDigit, GClose]"

definition capture :: "rxItem list \<Rightarrow> string \<Rightarrow> nat \<Rightarrow> string" where
  \<comment> \<open>\<^verbatim>\<open>m ? m[i + 1] : ''\<close> for \<^verbatim>\<open>m = s.match(re)\<close>\<close>
  "capture rx s i = (case matchSearch rx s of None \<Rightarrow> [] | Some caps \<Rightarrow> nthOr [] caps i)"

definition removeStart :: "rxItem list \<Rightarrow> string \<Rightarrow> string" where
  \<comment> \<open>\<^verbatim>\<open>s.replace(re, '')\<close> for a pattern anchored at the start\<close>
  "removeStart rx s = (case rxMatch rx s [] None of None \<Rightarrow> s | Some (caps, rest) \<Rightarrow> rest)"

definition directRows :: "node \<Rightarrow> node list" where
  \<comment> \<open>\<^verbatim>\<open>table.find('> tr, > tbody > tr')\<close>, in document order\<close>
  "directRows table =
     concat (map (\<lambda>c. if isTag ''tr'' c then [c]
                       else if isTag ''tbody'' c then childrenTag ''tr'' c else [])
                 (childElements table))"

definition padStart2 :: "string \<Rightarrow> string" where
  \<comment> \<open>\<^verbatim>\<open>s.padStart(2, '0')\<close>\<close>
  "padStart2 s = (if length s < 2 then replicate (2 - length s) CHR ''0'' @ s else s)"

definition resolveMonth :: "string \<Rightarrow> int \<Rightarrow> int" where
  \<comment> \<open>\<^verbatim>\<open>MONTH_MAP[monthAbbr] || monthNumber\<close>; no value of the table is 0, and a key of
      three capital letters is no inherited property of the object\<close>
  "resolveMonth monthAbbr monthNumber =
     (case map_of MONTH_MAP monthAbbr of None \<Rightarrow> monthNumber | Some n \<Rightarrow> n)"

definition tripDate :: "int \<Rightarrow> int \<Rightarrow> string \<Rightarrow> string" where
  \<comment> \<open>the lines under \<^verbatim>\<open>// Build date string\<close>\<close>
  "tripDate refYear monthNumber dateStr' =
     (let dayNum = take 2 dateStr';
          monthAbbr = drop 2 dateStr';
          dateMonthNum = resolveMonth monthAbbr monthNumber;
          dateYear = (if dateMonthNum < monthNumber then refYear + 1 else refYear)
      in numToString dateYear @ ''-'' @ padStart2 (numToString dateMonthNum) @ ''-'' @ dayNum)"

definition strongScan :: "rxItem list \<Rightarrow> node \<Rightarrow> string" where
  \<comment> \<open>\<^verbatim>\<open>table.find('strong').each\<close>: every matching element assigns the variable\<close>
  "strongScan rx table =
     foldl (\<lambda>v el. case matchSearch rx (trim (textContent el)) of
                      None \<Rightarrow> v | Some caps \<Rightarrow> nthOr [] caps 0)
           [] (findTag ''strong'' table)"

definition parseTrip :: "node \<Rightarrow> int \<Rightarrow> int \<Rightarrow> Trip option" where
  "parseTrip table refYear monthNumber =
     (let rows = directRows table
      in if length rows < 2 then None
         else
           let headerCells = findTag ''td'' (rows ! 0)
           in case matchStart tripRx (cellText headerCells 0) of
                None \<Rightarrow> None
              | Some tripMatch \<Rightarrow>
                  let detailCells = findTag ''td'' (rows ! 1);
                      baseEquipText = cellText detailCells 0;
                      exceptionsText = (if 2 < length detailCells then cellText detailCells 2 else [])
                  in Some \<lparr>tripNumber = nthOr [] tripMatch 0,
                           dateStr = nthOr [] tripMatch 1,
                           date = tripDate refYear monthNumber (nthOr [] tripMatch 1),
                           frequency = cellText headerCells 1,
                           baseReportTime = capture bseReptRx (cellText headerCells 2) 0,
                           operatingDates = capture operatesRx (cellText headerCells 3) 0,
                           base = capture baseEquipRx baseEquipText 0,
                           equipment = capture baseEquipRx baseEquipText 1,
                           crewComposition = cellText detailCells 1,
                           exceptions = removeStart exceptOnRx exceptionsText,
                           dutyPeriods = parseDutyPeriods table,
                           tafb = strongScan tafbRx table,
                           tripRig = strongScan rigRx table,
                           totals = parseTripTotals table,
                           crew = parseCrew table\<rparr>)"


subsection \<open>\<^verbatim>\<open>parseActivity\<close> and \<^verbatim>\<open>parseScheduleItems\<close>\<close>

record Activity =
  act_type :: string
  act_dateStr :: string
  startDate :: string
  startTime :: string
  endDate :: string
  endTime :: string
  act_credit :: string

datatype ScheduleItem = TripItem Trip | ActivityItem Activity

definition activityRx :: "rxItem list" where
  \<comment> \<open>\<^verbatim>\<open>/^(\w+)\s*:\s*(\d{2}[A-Z]{3})/\<close>\<close>
  "activityRx = [GOpen, many1 isWord, GClose, many isSpace, Lit '':'', many isSpace,
                 GOpen, exactly 2 isDigit, exactly 3 isUpper, GClose]"

definition firstText :: "node list \<Rightarrow> string" where
  \<comment> \<open>\<^verbatim>\<open>.first().text()\<close>: the empty string for an empty selection\<close>
  "firstText ns = (case ns of [] \<Rightarrow> [] | n # ns' \<Rightarrow> textContent n)"

definition parseActivity :: "node \<Rightarrow> Activity option" where
  "parseActivity table =
     (case matchStart activityRx (trim (firstText (findTag ''font'' table))) of
        None \<Rightarrow> None
      | Some m \<Rightarrow>
          let ty = nthOr [] m 0;
              start = \<lparr>act_type = ty, act_dateStr = nthOr [] m 1, startDate = [], startTime = [],
                       endDate = [], endTime = [], act_credit = []\<rparr>
          in Some (foldl (\<lambda>a row.
                     let cells = findTag ''td'' row
                     in if 6 \<le> length cells \<and> cellText cells 0 = ty
                        then a\<lparr>startDate := cellText cells 1, startTime := cellText cells 2,
                               endDate := cellText cells 3, endTime := cellText cells 4,
                               act_credit := cellText cells 5\<rparr>
                        else a) start (findTag ''tr'' table)))"

definition tripTestRx :: "rxItem list" where
  \<comment> \<open>\<^verbatim>\<open>/^O\d+\s*:\s*\d{2}[A-Z]{3}/\<close>\<close>
  "tripTestRx = [Lit ''O'', many1 isDigit, many isSpace, Lit '':'', many isSpace,
                 exactly 2 isDigit, exactly 3 isUpper]"

definition activityTestRx :: "rxItem list" where
  \<comment> \<open>\<^verbatim>\<open>/^[A-Z]{2,4}\s*:\s*\d{2}[A-Z]{3}/\<close>\<close>
  "activityTestRx = [between 2 4 isUpper, many isSpace, Lit '':'', many isSpace,
                     exactly 2 isDigit, exactly 3 isUpper]"

definition attrOr :: "node \<Rightarrow> string \<Rightarrow> string" where
  \<comment> \<open>\<^verbatim>\<open>$(el).attr(n) || ''\<close>\<close>
  "attrOr n a = (case attr n a of None \<Rightarrow> [] | Some v \<Rightarrow> v)"

definition isSeparator :: "node \<Rightarrow> bool" where
  \<comment> \<open>\<^verbatim>\<open>table.attr('name') === 'headertable' || table.find('hr').length > 0\<close>\<close>
  "isSeparator table \<longleftrightarrow> attr table ''name'' = Some ''headertable'' \<or> findTag ''hr'' table \<noteq> []"

definition isTripHeaderTd :: "node \<Rightarrow> bool" where
  "isTripHeaderTd el \<longleftrightarrow>
     strIncludes (attrOr el ''style'') ''color: #0000ff'' \<and>
     matchStart tripTestRx (trim (textContent el)) \<noteq> None"

definition isTripTable :: "node \<Rightarrow> bool" where
  "isTripTable table \<longleftrightarrow> filter isTripHeaderTd (findTag ''td'' table) \<noteq> []"

definition isActivityTable :: "node \<Rightarrow> bool" where
  "isActivityTable table \<longleftrightarrow>
     filter (\<lambda>el. matchStart activityTestRx (trim (textContent el)) \<noteq> None)
            (findTag ''font'' table) \<noteq> []"

definition itemStep :: "int \<Rightarrow> int \<Rightarrow> ScheduleItem list \<Rightarrow> node \<Rightarrow> ScheduleItem list" where
  \<comment> \<open>one turn of the \<^verbatim>\<open>while\<close> loop over \<^verbatim>\<open>allTables\<close>\<close>
  "itemStep refYear monthNumber acc table =
     (if isSeparator table then acc
      else if isTripTable table
           then (case parseTrip table refYear monthNumber of
                   None \<Rightarrow> acc | Some trip \<Rightarrow> acc @ [TripItem trip])
      else if isActivityTable table
           then (case parseActivity table of
                   None \<Rightarrow> acc | Some a \<Rightarrow> acc @ [ActivityItem a])
      else acc)"

definition cellsOfRows :: "node \<Rightarrow> node list" where
  \<comment> \<open>the selector \<^verbatim>\<open>> tbody > tr > td, > tr > td\<close> under one table, in document order\<close>
  "cellsOfRows table = concat (map (childrenTag ''td'') (directRows table))"

definition contentTables :: "node \<Rightarrow> node list" where
  \<comment> \<open>\<^verbatim>\<open>allTables\<close>: the child tables of the first cell that the selector finds under the
      tables named \<^verbatim>\<open>table4\<close>\<close>
  "contentTables doc =
     (case concat (map cellsOfRows
                    (filter (\<lambda>t. attr t ''name'' = Some ''table4'') (findTag ''table'' doc))) of
        [] \<Rightarrow> []
      | mainCell # cs \<Rightarrow> childrenTag ''table'' mainCell)"

definition parseScheduleItems :: "node \<Rightarrow> int \<Rightarrow> int \<Rightarrow> ScheduleItem list" where
  "parseScheduleItems doc refYear monthNumber =
     foldl (itemStep refYear monthNumber) [] (contentTables doc)"

subsection \<open>\<^verbatim>\<open>parseHeader\<close>\<close>

record HeaderInfo =
  hdr_month :: string
  hdr_monthNumber :: int
  hdr_year :: int
  hdr_crewMemberName :: string
  hdr_employeeNumber :: string
  hdr_lastUpdated :: string

definition monthRx :: "rxItem list" where
  \<comment> \<open>\<^verbatim>\<open>/(\w+)\s+Schedule/\<close>\<close>
  "monthRx = [GOpen, many1 isWord, GClose, many1 isSpace, Lit ''Schedule'']"

definition nameRx :: "rxItem list" where
  \<comment> \<open>\<^verbatim>\<open>/Schedule\s+([\w\s,]+?)\s*\((\d+)\)/\<close>\<close>
  "nameRx = [Lit ''Schedule'', many1 isSpace, GOpen, lazy1 isNameChar, GClose, many isSpace,
             Lit ''('', GOpen, many1 isDigit, GClose, Lit '')'']"

definition updatedRx :: "rxItem list" where
  \<comment> \<open>\<^verbatim>\<open>/Last Updated\s+(.+?)$/m\<close>\<close>
  "updatedRx = [Lit ''Last Updated'', many1 isSpace, GOpen, lazy1 isDot, GClose, Eol]"

definition yearRx :: "rxItem list" where
  \<comment> \<open>\<^verbatim>\<open>/(\d{4})/\<close>\<close>
  "yearRx = [GOpen, exactly 4 isDigit, GClose]"

fun indexOf :: "'a list \<Rightarrow> 'a \<Rightarrow> int" where
  \<comment> \<open>\<^verbatim>\<open>xs.indexOf(x)\<close>: \<open>-1\<close> when \<open>x\<close> is absent\<close>
  "indexOf [] x = - 1"
| "indexOf (y # ys) x = (if y = x then 0 else (let i = indexOf ys x in if i < 0 then - 1 else i + 1))"

definition headerOfText :: "int \<Rightarrow> string \<Rightarrow> HeaderInfo" where
  \<comment> \<open>\<^verbatim>\<open>parseHeader\<close> from \<^verbatim>\<open>h3Text\<close> on; \<open>now\<close> is \<^verbatim>\<open>new Date().getFullYear()\<close>\<close>
  "headerOfText now h3Text =
     (let monthName = capture monthRx h3Text 0;
          updated = trim (capture updatedRx h3Text 0)
      in \<lparr>hdr_month = monthName,
          hdr_monthNumber = indexOf MONTH_NAMES monthName,
          hdr_year = (case matchSearch yearRx updated of
                        None \<Rightarrow> now
                      | Some m \<Rightarrow> (case parseInt10 (nthOr [] m 0) of None \<Rightarrow> now | Some y \<Rightarrow> y)),
          hdr_crewMemberName = trim (capture nameRx h3Text 0),
          hdr_employeeNumber = capture nameRx h3Text 1,
          hdr_lastUpdated = updated\<rparr>)"

definition parseHeader :: "int \<Rightarrow> node \<Rightarrow> HeaderInfo" where
  \<comment> \<open>\<^verbatim>\<open>$('h3').first().text()\<close> is the empty string when there is no \<^verbatim>\<open>h3\<close>\<close>
  "parseHeader now doc = headerOfText now (firstText (findTag ''h3'' doc))"

subsection \<open>\<^verbatim>\<open>parseCalendar\<close> and \<^verbatim>\<open>parseSummary\<close>\<close>

record CalendarDay =
  cal_dayOfWeek :: string
  cal_dayOfMonth :: int
  activity :: string
  layoverAirport :: string
  isWeekend :: bool

text \<open>
  A number that comes from \<^verbatim>\<open>parseFloat\<close>. The finite value is the exact decimal value
  of the text; JavaScript rounds it to the nearest double. The summary only stores it.
\<close>

datatype jsNumber = NaN | Finite rat | PosInfinity | NegInfinity

definition exponentOf :: "string \<Rightarrow> int" where
  \<comment> \<open>the exponent part \<^verbatim>\<open>e[+-]?\d+\<close> at the head of the text, 0 when there is none\<close>
  "exponentOf r =
     (case r of
        [] \<Rightarrow> 0
      | c # r' \<Rightarrow>
          if c = CHR ''e'' \<or> c = CHR ''E''
          then (let neg = (r' \<noteq> [] \<and> hd r' = CHR ''-'');
                    r'' = (if r' \<noteq> [] \<and> (hd r' = CHR ''-'' \<or> hd r' = CHR ''+'') then tl r' else r');
                    ds = takeWhile isDigit r''
                in if ds = [] then 0 else if neg then - digitsVal ds else digitsVal ds)
          else 0)"

definition parseFloat :: "string \<Rightarrow> jsNumber" where
  \<comment> \<open>\<^verbatim>\<open>parseFloat(s)\<close>: the longest prefix, after white space, that is a decimal literal\<close>
  "parseFloat s =
     (let t = dropWhile isSpace s;
          neg = (t \<noteq> [] \<and> hd t = CHR ''-'');
          u = (if t \<noteq> [] \<and> (hd t = CHR ''-'' \<or> hd t = CHR ''+'') then tl t else t)
      in if prefix ''Infinity'' u then (if neg then NegInfinity else PosInfinity)
         else
           let ip = takeWhile isDigit u;
               r1 = dropWhile isDigit u;
               hasDot = (r1 \<noteq> [] \<and> hd r1 = CHR ''.'');
               fp = (if hasDot then takeWhile isDigit (tl r1) else []);
               r2 = (if hasDot then dropWhile isDigit (tl r1) else r1)
           in if ip = [] \<and> fp = [] then NaN
              else
                let mant = (of_int (digitsVal (ip @ fp)) :: rat) / 10 ^ length fp;
                    ex = exponentOf r2;
                    v = (if 0 \<le> ex then mant * 10 ^ nat ex else mant / 10 ^ nat (- ex))
                in Finite (if neg then - v else v))"

record ScheduleSummary =
  sum_block :: jsNumber
  sum_credit :: jsNumber
  ytd :: jsNumber
  daysOff :: jsNumber

fun findUnder :: "(node \<Rightarrow> bool) \<Rightarrow> (node \<Rightarrow> bool) \<Rightarrow> bool \<Rightarrow> node \<Rightarrow> node list" where
  \<comment> \<open>\<^verbatim>\<open>$(p).find(q)\<close> for a selection of several elements: the elements \<open>q\<close> that lie
      below an element \<open>p\<close>, each once, in document order; the flag says that the node or an
      ancestor of it is a \<open>p\<close>\<close>
  "findUnder p q ins (TextNode s) = []"
| "findUnder p q ins (Element t as cs) =
     concat (map (\<lambda>c. case c of
                         TextNode s \<Rightarrow> []
                       | Element t' as' cs' \<Rightarrow>
                           (if ins \<and> q c then [c] else []) @ findUnder p q (ins \<or> p c) c) cs)"

definition isTable2 :: "node \<Rightarrow> bool" where
  \<comment> \<open>\<^verbatim>\<open>table#table2, table[name="table2"]\<close>\<close>
  "isTable2 n \<longleftrightarrow>
     isTag ''table'' n \<and> (attr n ''id'' = Some ''table2'' \<or> attr n ''name'' = Some ''table2'')"

definition sidebarRows :: "node \<Rightarrow> node list" where
  \<comment> \<open>\<^verbatim>\<open>table2.find('tr')\<close>\<close>
  "sidebarRows doc = findUnder isTable2 (isTag ''tr'') False doc"

definition calendarStep :: "CalendarDay list \<Rightarrow> node \<Rightarrow> CalendarDay list" where
  "calendarStep acc row =
     (let cells = findTag ''td'' row
      in if length cells < 4 then acc
         else
           let dow = cellText cells 0;
               dayOfMonthStr = cellText cells 1
           in if dow = [] \<or> dayOfMonthStr = [] then acc
              else (case parseInt10 dayOfMonthStr of
                      None \<Rightarrow> acc
                    | Some d \<Rightarrow>
                        acc @ [\<lparr>cal_dayOfWeek = dow, cal_dayOfMonth = d,
                                activity = cellText cells 2, layoverAirport = cellText cells 3,
                                isWeekend = (map_option toLowerCase (attr row ''bgcolor'')
                                             = Some ''lightsteelblue'')\<rparr>]))"

definition parseCalendar :: "node \<Rightarrow> CalendarDay list" where
  "parseCalendar doc = foldl calendarStep [] (sidebarRows doc)"

definition summaryStep :: "ScheduleSummary \<Rightarrow> node \<Rightarrow> ScheduleSummary" where
  \<comment> \<open>the callback of \<^verbatim>\<open>table2.find('tr').each\<close> in \<^verbatim>\<open>parseSummary\<close>\<close>
  "summaryStep s row =
     (let cells = findTag ''td'' row
      in if 2 \<le> length cells
         then (let label = toLowerCase (cellText cells 0);
                   v = parseFloat (cellText cells 1)
               in if label = ''block'' \<and> v \<noteq> NaN then s\<lparr>sum_block := v\<rparr>
                  else if label = ''credit'' \<and> v \<noteq> NaN then s\<lparr>sum_credit := v\<rparr>
                  else if label = ''ytd'' \<and> v \<noteq> NaN then s\<lparr>ytd := v\<rparr>
                  else if strIncludes label ''days off'' \<and> v \<noteq> NaN then s\<lparr>daysOff := v\<rparr>
                  else s)
         else s)"

definition zeroSummary :: ScheduleSummary where
  "zeroSummary = \<lparr>sum_block = Finite 0, sum_credit = Finite 0, ytd = Finite 0, daysOff = Finite 0\<rparr>"

definition parseSummary :: "node \<Rightarrow> ScheduleSummary" where
  "parseSummary doc = foldl summaryStep zeroSummary (sidebarRows doc)"

subsection \<open>\<^verbatim>\<open>parseScheduleDetail\<close>\<close>

record MonthlySchedule =
  month :: string
  year :: int
  crewMemberName :: string
  sched_employeeNumber :: string
  lastUpdated :: string
  calendar :: "CalendarDay list"
  items :: "ScheduleItem list"
  summary :: ScheduleSummary

definition parseScheduleDetail :: "int \<Rightarrow> node \<Rightarrow> MonthlySchedule" where
  \<comment> \<open>\<open>doc\<close> is the tree that \<^verbatim>\<open>cheerio.load(html)\<close> builds, \<open>now\<close> the current year\<close>
  "parseScheduleDetail now doc =
     (let header = parseHeader now doc
      in \<lparr>month = hdr_month header,
          year = hdr_year header,
          crewMemberName = hdr_crewMemberName header,
          sched_employeeNumber = hdr_employeeNumber header,
          lastUpdated = hdr_lastUpdated header,
          calendar = parseCalendar doc,
          items = parseScheduleItems doc (hdr_year header) (hdr_monthNumber header),
          summary = parseSummary doc\<rparr>)"


section \<open>The WebView parser (the script of \<^verbatim>\<open>getScheduleParserScript\<close>)\<close>

text \<open>
  The script repeats the server-side parser over the browser DOM. Where its code is,
  statement by statement, that of the server-side parser, the model shares the definition:
  the row scan of \<^verbatim>\<open>parseDutyPeriods\<close> with its search for the flight table, the row loop
  of \<^verbatim>\<open>parseCrew\<close> (\<open>crewRow\<close>), \<^verbatim>\<open>parseTripTotals\<close>, \<^verbatim>\<open>parseActivity\<close>, the
  classification of the content tables, \<^verbatim>\<open>parseHeader\<close>, and the row callbacks
  \<open>calendarStep\<close> and \<open>summaryStep\<close>. The functions below are the places where the script
  is written differently: the date is padded by a local \<^verbatim>\<open>pad2\<close>, the crew table is found
  by testing each \<^verbatim>\<open>strong\<close> element on its own, and \<^verbatim>\<open>table2\<close>, \<^verbatim>\<open>table4\<close> and the
  main cell are single elements found by \<^verbatim>\<open>getElementById\<close> and \<^verbatim>\<open>querySelector\<close>.
\<close>

definition pad2 :: "int \<Rightarrow> string" where
  \<comment> \<open>\<^verbatim>\<open>function(n) { return n < 10 ? '0' + n : '' + n; }\<close>\<close>
  "pad2 n = (if n < 10 then CHR ''0'' # numToString n else numToString n)"

definition wv_tripDate :: "int \<Rightarrow> int \<Rightarrow> string \<Rightarrow> string" where
  "wv_tripDate refYear monthNumber dateStr' =
     (let dayNum = take 2 dateStr';
          monthAbbr = drop 2 dateStr';
          dateMonthNum = resolveMonth monthAbbr monthNumber;
          dateYear = (if dateMonthNum < monthNumber then refYear + 1 else refYear)
      in numToString dateYear @ ''-'' @ pad2 dateMonthNum @ ''-'' @ dayNum)"

definition wv_isCrewTable :: "node \<Rightarrow> bool" where
  \<comment> \<open>some \<^verbatim>\<open>strong\<close> element of the table has \<^verbatim>\<open>Crew:\<close> in its own text\<close>
  "wv_isCrewTable t \<longleftrightarrow>
     filter (\<lambda>el. strIncludes (textContent el) ''Crew:'') (findTag ''strong'' t) \<noteq> []"

definition wv_parseCrew :: "node \<Rightarrow> CrewMember list" where
  "wv_parseCrew tripTable =
     (case filter wv_isCrewTable (findTag ''table'' tripTable) of
        [] \<Rightarrow> []
      | ct # cts \<Rightarrow> foldl crewRow [] (findTag ''tr'' ct))"

definition wv_parseTrip :: "node \<Rightarrow> int \<Rightarrow> int \<Rightarrow> Trip option" where
  "wv_parseTrip table refYear monthNumber =
     (let rows = directRows table
      in if length rows < 2 then None
         else
           let headerCells = findTag ''td'' (rows ! 0)
           in case matchStart tripRx (cellText headerCells 0) of
                None \<Rightarrow> None
              | Some tripMatch \<Rightarrow>
                  let detailCells = findTag ''td'' (rows ! 1);
                      baseEquipText = cellText detailCells 0;
                      exceptionsText = (if 2 < length detailCells then cellText detailCells 2 else [])
                  in Some \<lparr>tripNumber = nthOr [] tripMatch 0,
                           dateStr = nthOr [] tripMatch 1,
                           date = wv_tripDate refYear monthNumber (nthOr [] tripMatch 1),
                           frequency = cellText headerCells 1,
                           baseReportTime = capture bseReptRx (cellText headerCells 2) 0,
                           operatingDates = capture operatesRx (cellText headerCells 3) 0,
                           base = capture baseEquipRx baseEquipText 0,
                           equipment = capture baseEquipRx baseEquipText 1,
                           crewComposition = cellText detailCells 1,
                           exceptions = removeStart exceptOnRx exceptionsText,
                           dutyPeriods = parseDutyPeriods table,
                           tafb = strongScan tafbRx table,
                           tripRig = strongScan rigRx table,
                           totals = parseTripTotals table,
                           crew = wv_parseCrew table\<rparr>)"

definition wv_itemStep :: "int \<Rightarrow> int \<Rightarrow> ScheduleItem list \<Rightarrow> node \<Rightarrow> ScheduleItem list" where
  "wv_itemStep refYear monthNumber acc tbl =
     (if isSeparator tbl then acc
      else if isTripTable tbl
           then (case wv_parseTrip tbl refYear monthNumber of
                   None \<Rightarrow> acc | Some trip \<Rightarrow> acc @ [TripItem trip])
      else if isActivityTable tbl
           then (case parseActivity tbl of
                   None \<Rightarrow> acc | Some a \<Rightarrow> acc @ [ActivityItem a])
      else acc)"

definition firstOr :: "'a list \<Rightarrow> 'a list \<Rightarrow> 'a option" where
  \<comment> \<open>\<^verbatim>\<open>a || b\<close> for two single-element lookups: the first hit of \<open>a\<close>, else of \<open>b\<close>\<close>
  "firstOr xs ys = (case xs of x # xs' \<Rightarrow> Some x | [] \<Rightarrow> (case ys of y # ys' \<Rightarrow> Some y | [] \<Rightarrow> None))"

definition wv_mainCell :: "node \<Rightarrow> node option" where
  \<comment> \<open>\<^verbatim>\<open>table4.querySelector(':scope > tbody > tr > td') || table4.querySelector(':scope > tr > td')\<close>\<close>
  "wv_mainCell table4 =
     firstOr (concat (map (childrenTag ''td'')
                (concat (map (childrenTag ''tr'') (childrenTag ''tbody'' table4)))))
             (concat (map (childrenTag ''td'') (childrenTag ''tr'' table4)))"

definition wv_contentTables :: "node \<Rightarrow> node list" where
  "wv_contentTables doc =
     (case filter (\<lambda>t. attr t ''name'' = Some ''table4'') (findTag ''table'' doc) of
        [] \<Rightarrow> []
      | table4 # ts \<Rightarrow>
          (case wv_mainCell table4 of None \<Rightarrow> [] | Some mainCell \<Rightarrow> childrenTag ''table'' mainCell))"

definition wv_parseScheduleItems :: "node \<Rightarrow> int \<Rightarrow> int \<Rightarrow> ScheduleItem list" where
  "wv_parseScheduleItems doc refYear monthNumber =
     foldl (wv_itemStep refYear monthNumber) [] (wv_contentTables doc)"

definition wv_table2 :: "node \<Rightarrow> node option" where
  \<comment> \<open>\<^verbatim>\<open>document.getElementById('table2') || document.querySelector('table[name="table2"]')\<close>\<close>
  "wv_table2 doc =
     firstOr (filter (\<lambda>n. attr n ''id'' = Some ''table2'') (descendants doc))
             (filter (\<lambda>n. attr n ''name'' = Some ''table2'') (findTag ''table'' doc))"

definition wv_sidebarRows :: "node \<Rightarrow> node list" where
  \<comment> \<open>\<^verbatim>\<open>table2.querySelectorAll('tr')\<close>; without a \<^verbatim>\<open>table2\<close> both functions return early\<close>
  "wv_sidebarRows doc = (case wv_table2 doc of None \<Rightarrow> [] | Some t \<Rightarrow> findTag ''tr'' t)"

definition wv_parseCalendar :: "node \<Rightarrow> CalendarDay list" where
  "wv_parseCalendar doc = foldl calendarStep [] (wv_sidebarRows doc)"

definition wv_parseSummary :: "node \<Rightarrow> ScheduleSummary" where
  "wv_parseSummary doc = foldl summaryStep zeroSummary (wv_sidebarRows doc)"

definition wv_parseScheduleDetail :: "int \<Rightarrow> node \<Rightarrow> MonthlySchedule" where
  \<comment> \<open>the record that the script posts as \<^verbatim>\<open>{type: 'schedule', data: schedule}\<close>\<close>
  "wv_parseScheduleDetail now doc =
     (let header = parseHeader now doc
      in \<lparr>month = hdr_month header,
          year = hdr_year header,
          crewMemberName = hdr_crewMemberName header,
          sched_employeeNumber = hdr_employeeNumber header,
          lastUpdated = hdr_lastUpdated header,
          calendar = wv_parseCalendar doc,
          items = wv_parseScheduleItems doc (hdr_year header) (hdr_monthNumber header),
          summary = wv_parseSummary doc\<rparr>)"


section \<open>Properties\<close>

subsection \<open>Predicates and functions used to state the properties\<close>

definition periodsOk :: "scanState \<Rightarrow> bool" where
  \<comment> \<open>the invariant of the row scan: no closed duty period is empty\<close>
  "periodsOk st \<longleftrightarrow> list_all (\<lambda>dp. legs dp \<noteq> []) (st_dutyPeriods st)"

definition isLegRow :: "node \<Rightarrow> bool" where
  \<comment> \<open>a row that reaches the flight-leg branch of the scan and is not skipped there\<close>
  "isLegRow row \<longleftrightarrow>
     \<not> hasClass ''main'' row \<and> \<not> hasClass ''bold'' row \<and> hasClass ''nowrap'' row \<and>
     10 \<le> length (findTag ''td'' row)"

definition isDetailRow :: "node \<Rightarrow> bool" where
  \<comment> \<open>a row that reaches the last branch of the scan and has a \<^verbatim>\<open>D-END:\<close> time\<close>
  "isDetailRow row \<longleftrightarrow>
     \<not> hasClass ''main'' row \<and> \<not> hasClass ''bold'' row \<and> \<not> hasClass ''nowrap'' row \<and>
     matchSearch dendRx (trim (textContent row)) \<noteq> None"

definition nameCells :: "node \<Rightarrow> string list" where
  \<comment> \<open>the texts of the cells that may name the hotel, in order\<close>
  "nameCells row =
     map snd (filter (\<lambda>p. hotelEligible (fst p) (snd p) \<and> \<not> startsWith (snd p) ''('')
                     (enumerate 0 (cellTexts row)))"

definition phoneCells :: "node \<Rightarrow> string list" where
  \<comment> \<open>the texts of the cells that may hold the hotel phone, in order\<close>
  "phoneCells row =
     map snd (filter (\<lambda>p. hotelEligible (fst p) (snd p) \<and> startsWith (snd p) ''('')
                     (enumerate 0 (cellTexts row)))"

definition crewMatches :: "node list \<Rightarrow> nat \<Rightarrow> bool" where
  \<comment> \<open>cell \<open>i\<close> is a position cell with two cells after it, both with text\<close>
  "crewMatches cells i \<longleftrightarrow>
     i + 2 < length cells \<and> (cellText cells i = ''CA'' \<or> cellText cells i = ''FO'') \<and>
     cellText cells (i + 1) \<noteq> [] \<and> cellText cells (i + 2) \<noteq> []"

definition crewAt :: "node list \<Rightarrow> nat \<Rightarrow> CrewMember" where
  "crewAt cells i =
     \<lparr>position = cellText cells i, employeeNumber = cellText cells (i + 1),
      name = cellText cells (i + 2)\<rparr>"

definition rowValue :: "node \<Rightarrow> jsNumber" where
  \<comment> \<open>the number in the value cell of a sidebar row\<close>
  "rowValue row = parseFloat (cellText (findTag ''td'' row) 1)"

definition totalRow :: "(string \<Rightarrow> bool) \<Rightarrow> node \<Rightarrow> bool" where
  \<comment> \<open>a sidebar row whose label satisfies \<open>lab\<close> and whose value cell parses as a number\<close>
  "totalRow lab row \<longleftrightarrow>
     2 \<le> length (findTag ''td'' row) \<and> lab (toLowerCase (cellText (findTag ''td'' row) 0)) \<and>
     rowValue row \<noteq> NaN"

definition lastValue :: "(string \<Rightarrow> bool) \<Rightarrow> jsNumber \<Rightarrow> node list \<Rightarrow> jsNumber" where
  \<comment> \<open>the value of the last such row, \<open>d\<close> when there is none\<close>
  "lastValue lab d rows =
     (case filter (totalRow lab) rows of [] \<Rightarrow> d | r # rs \<Rightarrow> rowValue (last (r # rs)))"




definition headerCellText :: "node \<Rightarrow> string" where
  \<comment> \<open>the trimmed text of the first cell of the first direct row of a table\<close>
  "headerCellText table = cellText (findTag ''td'' (directRows table ! 0)) 0"

definition isContentBlock :: "node \<Rightarrow> bool" where
  \<comment> \<open>a content table that the item loop classifies as a trip or an activity block\<close>
  "isContentBlock table \<longleftrightarrow> \<not> isSeparator table \<and> (isTripTable table \<or> isActivityTable table)"

definition lastTotals :: "node list \<Rightarrow> ScheduleSummary" where
  \<comment> \<open>for each total, the value of the last row that matches it, zero without one\<close>
  "lastTotals rows =
     \<lparr>sum_block = lastValue (\<lambda>l. l = ''block'') (Finite 0) rows,
      sum_credit = lastValue (\<lambda>l. l = ''credit'') (Finite 0) rows,
      ytd = lastValue (\<lambda>l. l = ''ytd'') (Finite 0) rows,
      daysOff = lastValue (\<lambda>l. strIncludes l ''days off'') (Finite 0) rows\<rparr>"

definition anyTotalRow :: "node \<Rightarrow> bool" where
  \<comment> \<open>a sidebar row that assigns one of the four totals\<close>
  "anyTotalRow row \<longleftrightarrow>
     totalRow (\<lambda>l. l = ''block'' \<or> l = ''credit'' \<or> l = ''ytd'' \<or> strIncludes l ''days off'') row"

definition itemDates :: "ScheduleItem list \<Rightarrow> string list" where
  \<comment> \<open>the reconstructed dates of the trips of an item list, in order\<close>
  "itemDates xs = concat (map (\<lambda>i. case i of TripItem t \<Rightarrow> [date t] | ActivityItem a \<Rightarrow> []) xs)"

subsection \<open>Example documents\<close>

definition td :: "string \<Rightarrow> node" where
  "td s = Element ''td'' [] [TextNode s]"

definition exLegRow1 :: node where
  \<comment> \<open>a leg on day 1 that ends with a layover in BOS\<close>
  "exLegRow1 = Element ''tr'' [(''class'', ''nowrap'')]
     (map td [''SU'', ''01'', [], [], ''460'', ''MCO-BOS'', ''0559'', ''0940'', ''0241'', ''0100'',
              ''BOS 1234''])"

definition exLegRow2 :: node where
  \<comment> \<open>a leg on day 2\<close>
  "exLegRow2 = Element ''tr'' [(''class'', ''nowrap'')]
     (map td [''MO'', ''02'', [], [], ''271'', ''BOS-MCO'', ''0700'', ''1010'', ''0310'', [], []])"

definition exDendRow :: node where
  \<comment> \<open>a layover detail row with two phone cells\<close>
  "exDendRow = Element ''tr'' []
     (map td [''D-END: 1010L'', ''REPT: 0600L'', ''Harbor Hotel'', ''(617) 555-0100'',
              ''(617) 555-0199''])"

definition exOpenState :: scanState where
  \<comment> \<open>the state of the scan after the first leg: one open leg, the layover open\<close>
  "exOpenState = scanRow initState exLegRow1"

definition exFlightTable :: node where
  "exFlightTable = Element ''table'' []
     [Element ''tr'' [(''class'', ''main'')] [td ''DY''], exLegRow1, exDendRow, exLegRow2]"

definition exHeaderRows :: "string \<Rightarrow> node list" where
  \<comment> \<open>the two leading rows of a trip table with the given header text\<close>
  "exHeaderRows h =
     [Element ''tr'' []
        [Element ''td'' [(''style'', ''color: #0000ff'')] [TextNode h], td ''EVERY DAY'',
         td ''BSE REPT: 0515L'', td ''Operates: Feb 1-Feb 9''],
      Element ''tr'' [] [td ''Base/Equip: MCO/321'', td ''CA01FO01'']]"

definition exCrewRow :: node where
  \<comment> \<open>two crew blocks, a position cell with an empty name, and a position cell in the last two
      places\<close>
  "exCrewRow = Element ''tr'' []
     (map td [[], ''CA'', ''67948'', ''Price, Gregory'', ''FO'', ''76148'', ''Wendt, Brian'',
              ''CA'', ''11111'', [], ''FO'', ''22222''])"

definition exTripTable :: node where
  "exTripTable = Element ''table'' []
     [Element ''tbody'' []
        (exHeaderRows ''O4031 : 01FEB'' @
         [Element ''tr'' [] [Element ''td'' [] [exFlightTable]],
          Element ''tr'' []
            [Element ''td'' []
               [Element ''table'' []
                  [Element ''tr'' [] [Element ''td'' [] [Element ''strong'' [] [TextNode ''Crew:'']]],
                   exCrewRow]]]])]"

definition exNoFlights :: node where
  \<comment> \<open>a trip table with its two header rows and nothing else\<close>
  "exNoFlights = Element ''table'' [] [Element ''tbody'' [] (exHeaderRows ''O4031 : 01FEB'')]"

definition exOneRow :: node where
  \<comment> \<open>a trip table with the header row only\<close>
  "exOneRow = Element ''table'' [] [Element ''tbody'' [] [hd (exHeaderRows ''O4031 : 01FEB'')]]"

definition exSidebar :: node where
  \<comment> \<open>a sidebar with the block total twice and a credit total that is not a number\<close>
  "exSidebar = Element ''table'' [(''id'', ''table2''), (''name'', ''table2'')]
     [Element ''tr'' [] [td ''Block'', td ''43.18''],
      Element ''tr'' [] [td ''Credit'', td ''n/a''],
      Element ''tr'' [] [td ''Block'', td ''51.02''],
      Element ''tr'' [] [td ''Block'', td ''--'']]"

definition exSidebarDoc :: node where
  \<comment> \<open>a document with a sidebar and neither heading nor content panel\<close>
  "exSidebarDoc = Element ''html'' [] [Element ''body'' [] [exSidebar]]"

definition exEmptyDoc :: node where
  "exEmptyDoc = Element ''html'' [] [Element ''body'' [] []]"

definition exDriftDoc :: node where
  \<comment> \<open>a schedule page whose heading has a month name that is not in \<^verbatim>\<open>MONTH_NAMES\<close> and
      whose trip has a month abbreviation that is not in \<^verbatim>\<open>MONTH_MAP\<close>\<close>
  "exDriftDoc = Element ''html'' []
     [Element ''body'' []
        [Element ''h3'' [] [TextNode ''Fevrier Schedule Brian Wendt (76148) Last Updated 12 Fev 2026''],
         Element ''table'' [(''name'', ''table4'')]
           [Element ''tbody'' []
              [Element ''tr'' []
                 [Element ''td'' []
                    [Element ''table'' [] [Element ''tbody'' [] (exHeaderRows ''O4031 : 01FEV'')]]]]]]]"



definition exTwoSidebarsDoc :: node where
  \<comment> \<open>a page whose calendar table carries the id \<^verbatim>\<open>table2\<close> and whose totals table the
      name \<^verbatim>\<open>table2\<close>\<close>
  "exTwoSidebarsDoc = Element ''html'' []
     [Element ''body'' []
        [Element ''table'' [(''id'', ''table2'')]
           [Element ''tr'' [] (map td [''SU'', ''01'', ''O4031'', ''BOS''])],
         Element ''table'' [(''name'', ''table2'')]
           [Element ''tr'' [] [td ''Block'', td ''43.18'']]]]"

subsection \<open>Facts about the row scan\<close>

lemma foldl_keeps: "(\<And>s x. g (f s x) = g s) \<Longrightarrow> g (foldl f s xs) = g s"
  by (induction xs arbitrary: s) simp_all

lemma boldRow_periods: "st_dutyPeriods (boldRow st row) = st_dutyPeriods st"
  unfolding boldRow_def Let_def by (rule foldl_keeps) simp

lemma boldRow_legs: "currentLegs (boldRow st row) = currentLegs st"
  unfolding boldRow_def Let_def by (rule foldl_keeps) simp

lemma dendRow_periods: "st_dutyPeriods (dendRow st row) = st_dutyPeriods st"
  by (simp add: dendRow_def Let_def split: option.splits)

lemma dendRow_legs: "currentLegs (dendRow st row) = currentLegs st"
  by (simp add: dendRow_def Let_def split: option.splits)

lemma legRow_periods:
  "10 \<le> length (findTag ''td'' row) \<Longrightarrow>
   st_dutyPeriods (legRow st row) =
     (if closesPeriod st (parseInt10 (cellText (findTag ''td'' row) 1))
      then st_dutyPeriods st @
             [\<lparr>legs = currentLegs st, totalBlock = [], totalDeadhead = [], totalCredit = [],
               totalDutyFdp = [], layover = currentLayover st\<rparr>]
      else st_dutyPeriods st)"
  by (simp add: legRow_def Let_def split: option.splits)

lemma legRow_legs:
  "10 \<le> length (findTag ''td'' row) \<Longrightarrow>
   currentLegs (legRow st row) =
     (if closesPeriod st (parseInt10 (cellText (findTag ''td'' row) 1))
      then [legOfCells (findTag ''td'' row)]
      else currentLegs st @ [legOfCells (findTag ''td'' row)])"
  by (simp add: legRow_def Let_def split: option.splits)

lemma scanRow_leg: "isLegRow row \<Longrightarrow> scanRow st row = legRow st row"
  by (simp add: isLegRow_def scanRow_def)

lemma legRow_short: "length (findTag ''td'' row) < 10 \<Longrightarrow> legRow st row = st"
  by (simp add: legRow_def Let_def)

lemma scanRow_other:
  "\<not> isLegRow row \<Longrightarrow>
   scanRow st row = st \<or> scanRow st row = boldRow st row \<or> scanRow st row = dendRow st row"
  by (auto simp: isLegRow_def scanRow_def legRow_short)

lemma scanRow_other_periods: "\<not> isLegRow row \<Longrightarrow> st_dutyPeriods (scanRow st row) = st_dutyPeriods st"
  using scanRow_other [of row st] by (auto simp: boldRow_periods dendRow_periods)

lemma scanRow_other_legs: "\<not> isLegRow row \<Longrightarrow> currentLegs (scanRow st row) = currentLegs st"
  using scanRow_other [of row st] by (auto simp: boldRow_legs dendRow_legs)

lemma scanRow_ok: "periodsOk st \<Longrightarrow> periodsOk (scanRow st row)"
proof (cases "isLegRow row")
  case False
  assume "periodsOk st"
  with False show ?thesis by (simp add: periodsOk_def scanRow_other_periods)
next
  case True
  assume ok: "periodsOk st"
  from True have len: "10 \<le> length (findTag ''td'' row)" by (simp add: isLegRow_def)
  show ?thesis
    using ok by (simp add: scanRow_leg[OF True] periodsOk_def legRow_periods[OF len] closesPeriod_def)
qed

lemma foldl_scanRow_ok: "periodsOk st \<Longrightarrow> periodsOk (foldl scanRow st rows)"
  by (induction rows arbitrary: st) (simp_all add: scanRow_ok)

lemma finishScan_ok: "periodsOk st \<Longrightarrow> list_all (\<lambda>dp. legs dp \<noteq> []) (finishScan st)"
  by (simp add: finishScan_def periodsOk_def)

text \<open>
  C5. Every duty period in the output of \<^verbatim>\<open>parseDutyPeriods\<close> has at least one leg,
  whatever the trip table: a period is pushed at a boundary or after the last row only
  when the open leg list is not empty.
\<close>

theorem dutyPeriod_legs_nonempty:
  "list_all (\<lambda>dp. legs dp \<noteq> []) (parseDutyPeriods tripTable)"
proof (cases "flightTable tripTable")
  case None
  then show ?thesis by (simp add: parseDutyPeriods_def)
next
  case (Some ft)
  have "periodsOk initState" by (simp add: periodsOk_def initState_def)
  then have "periodsOk (foldl scanRow initState (findTag ''tr'' ft))" by (rule foldl_scanRow_ok)
  then show ?thesis using Some by (simp add: parseDutyPeriods_def finishScan_ok)
qed

lemma exTrip_periods: "length (parseDutyPeriods exTripTable) = 2"
  by code_simp

theorem dutyPeriod_legs_nonempty_witness:
  "length (parseDutyPeriods exTripTable) = 2 \<and>
   legs (parseDutyPeriods exTripTable ! 0) \<noteq> [] \<and> legs (parseDutyPeriods exTripTable ! 1) \<noteq> []"
  using dutyPeriod_legs_nonempty [of exTripTable] exTrip_periods
  by (simp add: list_all_length)






subsection \<open>Facts about the crew scan\<close>

lemma crewStep_eq:
  "i + 2 < length cells \<Longrightarrow>
   crewStep cells acc i = acc @ (if crewMatches cells i then [crewAt cells i] else [])"
  by (simp add: crewStep_def crewMatches_def crewAt_def Let_def)

lemma foldl_crewStep:
  "\<forall>i \<in> set is. i + 2 < length cells \<Longrightarrow>
   foldl (crewStep cells) acc is = acc @ map (crewAt cells) (filter (crewMatches cells) is)"
  by (induction "is" arbitrary: acc) (simp_all add: crewStep_eq)

lemma crewMatches_bound: "crewMatches cells i \<Longrightarrow> i < length cells - 2"
  by (auto simp: crewMatches_def)

lemma filter_crewMatches_upt:
  "filter (crewMatches cells) [0..<length cells] = filter (crewMatches cells) [0..<length cells - 2]"
proof -
  have "[0..<length cells - 2 + (length cells - (length cells - 2))] =
        [0..<length cells - 2] @ [length cells - 2..<length cells - 2 + (length cells - (length cells - 2))]"
    by (rule upt_add_eq_append) simp
  then have "[0..<length cells] = [0..<length cells - 2] @ [length cells - 2..<length cells]"
    by simp
  moreover have "filter (crewMatches cells) [length cells - 2..<length cells] = []"
    by (auto simp: filter_empty_conv dest: crewMatches_bound)
  ultimately show ?thesis by (metis append_Nil2 filter_append)
qed

text \<open>
  C10. In a row of the crew table, the members pushed are exactly those of the cell
  indices \<open>i\<close>, in order, where cell \<open>i\<close> has the text \<^verbatim>\<open>CA\<close> or \<^verbatim>\<open>FO\<close>, two more
  cells follow it in the row (\<open>i + 2 < length cells\<close>), and both have non-empty trimmed
  text. So a position cell followed by an empty cell gives no member, and a position cell
  in one of the last two places of the row is never matched.
\<close>

theorem crew_row_members:
  "crewRow acc row =
     acc @ map (crewAt (findTag ''td'' row))
               (filter (crewMatches (findTag ''td'' row)) [0..<length (findTag ''td'' row)])"
proof -
  have "\<forall>i \<in> set [0..<length (findTag ''td'' row) - 2]. i + 2 < length (findTag ''td'' row)"
    by auto
  then show ?thesis
    by (simp add: crewRow_def Let_def foldl_crewStep filter_crewMatches_upt)
qed

lemma exCrewRow_matches:
  "filter (crewMatches (findTag ''td'' exCrewRow)) [0..<length (findTag ''td'' exCrewRow)] = [1, 4]"
  by code_simp

lemma exCrewRow_texts:
  "length (findTag ''td'' exCrewRow) = 12"
  "cellText (findTag ''td'' exCrewRow) 7 = ''CA''" "cellText (findTag ''td'' exCrewRow) 9 = []"
  "cellText (findTag ''td'' exCrewRow) 10 = ''FO''"
  "crewAt (findTag ''td'' exCrewRow) 1 = \<lparr>position = ''CA'', employeeNumber = ''67948'', name = ''Price, Gregory''\<rparr>"
  "crewAt (findTag ''td'' exCrewRow) 4 = \<lparr>position = ''FO'', employeeNumber = ''76148'', name = ''Wendt, Brian''\<rparr>"
  by code_simp+

theorem crew_row_members_witness:
  "cellText (findTag ''td'' exCrewRow) 7 = ''CA'' \<and> cellText (findTag ''td'' exCrewRow) 9 = [] \<and>
   cellText (findTag ''td'' exCrewRow) 10 = ''FO'' \<and> length (findTag ''td'' exCrewRow) = 12 \<and>
   crewRow [] exCrewRow =
     [\<lparr>position = ''CA'', employeeNumber = ''67948'', name = ''Price, Gregory''\<rparr>,
      \<lparr>position = ''FO'', employeeNumber = ''76148'', name = ''Wendt, Brian''\<rparr>]"
  using crew_row_members [of "[]" exCrewRow] exCrewRow_matches exCrewRow_texts
  by simp


subsection \<open>Facts about loops in which the last assignment wins\<close>

lemma case_last:
  "(case xs of [] \<Rightarrow> a | r # rs \<Rightarrow> f (last (r # rs))) = (if xs = [] then a else f (last xs))"
  by (cases xs) simp_all

lemma foldl_last_wins:
  assumes step: "\<And>s r. g (f s r) = (if P r then v r else g s)"
  shows "g (foldl f s rows) = (case filter P rows of [] \<Rightarrow> g s | r # rs \<Rightarrow> v (last (r # rs)))"
  unfolding case_last
  by (induction rows rule: rev_induct) (simp_all add: step)

subsection \<open>Facts about the summary scan\<close>

lemma days_off_label:
  "strIncludes l ''days off'' \<Longrightarrow> l \<noteq> ''block'' \<and> l \<noteq> ''credit'' \<and> l \<noteq> ''ytd''"
  by auto

lemma summaryStep_block:
  "sum_block (summaryStep s row) = (if totalRow (\<lambda>l. l = ''block'') row then rowValue row else sum_block s)"
  by (simp add: summaryStep_def totalRow_def rowValue_def Let_def)

lemma summaryStep_credit:
  "sum_credit (summaryStep s row) = (if totalRow (\<lambda>l. l = ''credit'') row then rowValue row else sum_credit s)"
  by (simp add: summaryStep_def totalRow_def rowValue_def Let_def)

lemma summaryStep_ytd:
  "ytd (summaryStep s row) = (if totalRow (\<lambda>l. l = ''ytd'') row then rowValue row else ytd s)"
  by (simp add: summaryStep_def totalRow_def rowValue_def Let_def)

lemma summaryStep_daysOff:
  "daysOff (summaryStep s row) =
     (if totalRow (\<lambda>l. strIncludes l ''days off'') row then rowValue row else daysOff s)"
  using days_off_label [of "toLowerCase (cellText (findTag ''td'' row) 0)"]
  by (simp add: summaryStep_def totalRow_def rowValue_def Let_def)

text \<open>
  C8. In both parsers each of the four totals of the summary is the value of the last
  sidebar row, in document order, whose lower-cased label matches the total (\<^verbatim>\<open>block\<close>,
  \<^verbatim>\<open>credit\<close>, \<^verbatim>\<open>ytd\<close>, or a label containing \<^verbatim>\<open>days off\<close>) and whose value cell
  parses as a number, and zero when there is no such row. A row whose label matches and
  whose value does not parse is no such row, so it leaves the field as it was. The
  extractor is a total function: no input makes it raise.
\<close>

theorem summary_last_row_wins:
  "parseSummary doc = lastTotals (sidebarRows doc) \<and>
   wv_parseSummary doc = lastTotals (wv_sidebarRows doc)"
proof -
  have b: "sum_block (foldl summaryStep zeroSummary rows) =
           lastValue (\<lambda>l. l = ''block'') (Finite 0) rows" for rows
    using foldl_last_wins [of sum_block summaryStep, OF summaryStep_block]
    by (simp add: lastValue_def zeroSummary_def case_last)
  have c: "sum_credit (foldl summaryStep zeroSummary rows) =
           lastValue (\<lambda>l. l = ''credit'') (Finite 0) rows" for rows
    using foldl_last_wins [of sum_credit summaryStep, OF summaryStep_credit]
    by (simp add: lastValue_def zeroSummary_def case_last)
  have y: "ytd (foldl summaryStep zeroSummary rows) =
           lastValue (\<lambda>l. l = ''ytd'') (Finite 0) rows" for rows
    using foldl_last_wins [of ytd summaryStep, OF summaryStep_ytd]
    by (simp add: lastValue_def zeroSummary_def case_last)
  have d: "daysOff (foldl summaryStep zeroSummary rows) =
           lastValue (\<lambda>l. strIncludes l ''days off'') (Finite 0) rows" for rows
    using foldl_last_wins [of daysOff summaryStep, OF summaryStep_daysOff]
    by (simp add: lastValue_def zeroSummary_def case_last)
  have "foldl summaryStep zeroSummary rows = lastTotals rows" for rows
    by (rule ScheduleSummary.equality) (simp_all add: lastTotals_def b c y d)
  then show ?thesis by (simp add: parseSummary_def wv_parseSummary_def)
qed

lemma exSidebar_values:
  "lastTotals (sidebarRows exSidebarDoc) =
     \<lparr>sum_block = Finite (2551 / 50), sum_credit = Finite 0, ytd = Finite 0, daysOff = Finite 0\<rparr>"
  "lastTotals (wv_sidebarRows exSidebarDoc) =
     \<lparr>sum_block = Finite (2551 / 50), sum_credit = Finite 0, ytd = Finite 0, daysOff = Finite 0\<rparr>"
  by code_simp+

theorem summary_last_row_wins_witness:
  "parseSummary exSidebarDoc =
     \<lparr>sum_block = Finite (2551 / 50), sum_credit = Finite 0, ytd = Finite 0, daysOff = Finite 0\<rparr> \<and>
   wv_parseSummary exSidebarDoc =
     \<lparr>sum_block = Finite (2551 / 50), sum_credit = Finite 0, ytd = Finite 0, daysOff = Finite 0\<rparr>"
  using summary_last_row_wins [of exSidebarDoc] exSidebar_values by simp

subsection \<open>Facts about the layover detail row\<close>

lemma hotelCell_phone:
  "hotelPhone (hotelCell lay p) =
     (if hotelEligible (fst p) (snd p) \<and> startsWith (snd p) ''('' then snd p else hotelPhone lay)"
  by (cases p) (simp add: hotelCell_def)

lemma hotelCell_name:
  "hotelName (hotelCell lay p) =
     (if hotelName lay = [] \<and> hotelEligible (fst p) (snd p) \<and> \<not> startsWith (snd p) ''(''
      then snd p else hotelName lay)"
  by (cases p) (simp add: hotelCell_def)

lemma hotelCell_name_set:
  "hotelName lay \<noteq> [] \<Longrightarrow> hotelName (foldl hotelCell lay ps) = hotelName lay"
  by (induction ps arbitrary: lay) (simp_all add: hotelCell_name)

lemma foldl_hotelCell_name:
  "hotelName lay = [] \<Longrightarrow>
   hotelName (foldl hotelCell lay ps) =
     (case filter (\<lambda>p. hotelEligible (fst p) (snd p) \<and> \<not> startsWith (snd p) ''('') ps of
        [] \<Rightarrow> [] | p # ps' \<Rightarrow> snd p)"
proof (induction ps arbitrary: lay)
  case Nil
  then show ?case by simp
next
  case (Cons p ps)
  show ?case
  proof (cases "hotelEligible (fst p) (snd p) \<and> \<not> startsWith (snd p) ''(''")
    case True
    then have "hotelName (hotelCell lay p) = snd p" and "snd p \<noteq> []"
      using Cons.prems by (simp_all add: hotelCell_name hotelEligible_def)
    then show ?thesis using True by (simp add: hotelCell_name_set)
  next
    case False
    then have "hotelName (hotelCell lay p) = []"
      using Cons.prems by (auto simp: hotelCell_name)
    then show ?thesis using False Cons.IH by auto
  qed
qed

lemma foldl_hotelCell_phone:
  "hotelPhone (foldl hotelCell lay ps) =
     (case filter (\<lambda>p. hotelEligible (fst p) (snd p) \<and> startsWith (snd p) ''('') ps of
        [] \<Rightarrow> hotelPhone lay | p # ps' \<Rightarrow> snd (last (p # ps')))"
  by (rule foldl_last_wins) (rule hotelCell_phone)

lemma scanRow_detail:
  assumes "isDetailRow row" and "currentLayover st = Some lay"
  shows "currentLayover (scanRow st row) =
           Some (foldl hotelCell
                   (lay\<lparr>dutyEndLocal := capture dendRx (trim (textContent row)) 0,
                        reportLocal := capture reptRx (trim (textContent row)) 0\<rparr>)
                   (enumerate 0 (cellTexts row)))"
  using assms by (auto simp: isDetailRow_def scanRow_def dendRow_def capture_def Let_def)

text \<open>
  C7, as the code has it. When a D-END detail row is processed while a layover is open:
  the hotel name, if the layover has none yet, becomes the text of the first cell of index
  above 1 whose trimmed text is non-empty, contains neither \<^verbatim>\<open>D-END\<close> nor \<^verbatim>\<open>T.A.F.B.\<close>
  and does not start with \<^verbatim>\<open>(\<close> (a name already set is kept, and without such a cell it
  stays empty); the hotel phone becomes the text of the last such cell that starts with
  \<^verbatim>\<open>(\<close>, and is kept when there is none.
\<close>

theorem detail_row_hotel:
  assumes "isDetailRow row" and "currentLayover st = Some lay"
  shows "map_option hotelName (currentLayover (scanRow st row)) =
           Some (if hotelName lay \<noteq> [] then hotelName lay
                 else case nameCells row of [] \<Rightarrow> [] | t # ts \<Rightarrow> t) \<and>
         map_option hotelPhone (currentLayover (scanRow st row)) =
           Some (case phoneCells row of [] \<Rightarrow> hotelPhone lay | t # ts \<Rightarrow> last (t # ts))"
proof -
  let ?lay = "lay\<lparr>dutyEndLocal := capture dendRx (trim (textContent row)) 0,
                  reportLocal := capture reptRx (trim (textContent row)) 0\<rparr>"
  have eq: "currentLayover (scanRow st row) =
              Some (foldl hotelCell ?lay (enumerate 0 (cellTexts row)))"
    by (rule scanRow_detail [OF assms])
  have nm: "hotelName (foldl hotelCell ?lay (enumerate 0 (cellTexts row))) =
              (if hotelName lay \<noteq> [] then hotelName lay
               else case nameCells row of [] \<Rightarrow> [] | t # ts \<Rightarrow> t)"
  proof (cases "hotelName lay = []")
    case True
    then have "hotelName ?lay = []" by simp
    from foldl_hotelCell_name [OF this] True show ?thesis
      by (simp add: nameCells_def split: list.splits)
  next
    case False
    then have "hotelName ?lay \<noteq> []" by simp
    from hotelCell_name_set [OF this] False show ?thesis by simp
  qed
  have ph: "hotelPhone (foldl hotelCell ?lay (enumerate 0 (cellTexts row))) =
              (case phoneCells row of [] \<Rightarrow> hotelPhone lay | t # ts \<Rightarrow> last (t # ts))"
    by (simp add: foldl_hotelCell_phone phoneCells_def last_map split: list.splits)
  show ?thesis by (simp add: eq nm ph)
qed

lemma exDendRow_detail: "isDetailRow exDendRow"
  by code_simp

lemma exOpenState_layover:
  "currentLayover exOpenState =
     Some \<lparr>airport = ''BOS'', restTime = ''1234'', hotelName = [], hotelPhone = [],
           dutyEndLocal = [], reportLocal = []\<rparr>"
  by code_simp

lemma exDendRow_cells:
  "nameCells exDendRow = [''Harbor Hotel'']"
  "phoneCells exDendRow = [''(617) 555-0100'', ''(617) 555-0199'']"
  by code_simp+

theorem detail_row_hotel_witness:
  "isDetailRow exDendRow \<and>
   map_option hotelName (currentLayover (scanRow exOpenState exDendRow)) = Some ''Harbor Hotel'' \<and>
   map_option hotelPhone (currentLayover (scanRow exOpenState exDendRow)) = Some ''(617) 555-0199''"
  using detail_row_hotel [OF exDendRow_detail exOpenState_layover] exDendRow_detail exDendRow_cells
  by simp

theorem hotel_phone_first_counterexample:
  "isDetailRow exDendRow \<and> currentLayover exOpenState \<noteq> None \<and>
   hd (phoneCells exDendRow) = ''(617) 555-0100'' \<and>
   map_option hotelPhone (currentLayover (scanRow exOpenState exDendRow)) = Some ''(617) 555-0199''"
  by code_simp


subsection \<open>Facts about the end of the row scan\<close>

lemma scanRow_started:
  "(st_dutyPeriods (scanRow st row) \<noteq> [] \<or> currentLegs (scanRow st row) \<noteq> []) \<longleftrightarrow>
   (st_dutyPeriods st \<noteq> [] \<or> currentLegs st \<noteq> []) \<or> isLegRow row"
proof (cases "isLegRow row")
  case True
  then have "10 \<le> length (findTag ''td'' row)" by (simp add: isLegRow_def)
  from legRow_legs [OF this, of st] have "currentLegs (legRow st row) \<noteq> []"
    by (simp split: if_splits)
  with True show ?thesis by (simp add: scanRow_leg)
next
  case False
  then show ?thesis by (simp add: scanRow_other_periods scanRow_other_legs)
qed

lemma foldl_scanRow_started:
  "(st_dutyPeriods (foldl scanRow st rows) \<noteq> [] \<or> currentLegs (foldl scanRow st rows) \<noteq> []) \<longleftrightarrow>
   (st_dutyPeriods st \<noteq> [] \<or> currentLegs st \<noteq> []) \<or> list_ex isLegRow rows"
proof (induction rows arbitrary: st)
  case Nil
  show ?case by simp
next
  case (Cons r rs)
  show ?case using Cons.IH [of "scanRow st r"] scanRow_started [of st r] by auto
qed

lemma finishScan_nonempty:
  "finishScan st \<noteq> [] \<longleftrightarrow> st_dutyPeriods st \<noteq> [] \<or> currentLegs st \<noteq> []"
  by (simp add: finishScan_def)

lemma parseDutyPeriods_nonempty:
  "parseDutyPeriods table \<noteq> [] \<longleftrightarrow>
   (case flightTable table of None \<Rightarrow> False | Some ft \<Rightarrow> list_ex isLegRow (findTag ''tr'' ft))"
proof (cases "flightTable table")
  case None
  then show ?thesis by (simp add: parseDutyPeriods_def)
next
  case (Some ft)
  have "st_dutyPeriods initState = []" and "currentLegs initState = []"
    by (simp_all add: initState_def)
  with foldl_scanRow_started [of initState "findTag ''tr'' ft"] Some show ?thesis
    by (simp add: parseDutyPeriods_def finishScan_nonempty)
qed

lemma parseTrip_dutyPeriods:
  "parseTrip table refYear monthNumber = Some trip \<Longrightarrow> dutyPeriods trip = parseDutyPeriods table"
  by (auto simp: parseTrip_def Let_def split: if_splits option.splits)

lemma wv_parseTrip_dutyPeriods:
  "wv_parseTrip table refYear monthNumber = Some trip \<Longrightarrow> dutyPeriods trip = parseDutyPeriods table"
  by (auto simp: wv_parseTrip_def Let_def split: if_splits option.splits)

text \<open>
  C2, as the code has it. A trip that \<^verbatim>\<open>parseTrip\<close> returns, in either parser, has a
  non-empty list of duty periods exactly when the trip table has a nested flight table (a
  nested table with a \<^verbatim>\<open>tr.main\<close> row) and that table has at least one flight-leg row
  (class \<^verbatim>\<open>nowrap\<close>, ten cells or more). A trip table without such a row is still
  returned, with no duty period.
\<close>

theorem trip_dutyPeriods_nonempty_iff:
  assumes "parseTrip table refYear monthNumber = Some trip \<or>
           wv_parseTrip table refYear monthNumber = Some trip"
  shows "dutyPeriods trip \<noteq> [] \<longleftrightarrow>
         (case flightTable table of None \<Rightarrow> False | Some ft \<Rightarrow> list_ex isLegRow (findTag ''tr'' ft))"
proof -
  from assms have "dutyPeriods trip = parseDutyPeriods table"
    by (auto dest: parseTrip_dutyPeriods wv_parseTrip_dutyPeriods)
  then show ?thesis by (simp add: parseDutyPeriods_nonempty)
qed

lemma exTripTable_parsed: "parseTrip exTripTable 2026 2 \<noteq> None"
  by code_simp

lemma exTripTable_leg_rows:
  "(case flightTable exTripTable of None \<Rightarrow> False | Some ft \<Rightarrow> list_ex isLegRow (findTag ''tr'' ft))"
  by code_simp

theorem trip_dutyPeriods_nonempty_iff_witness:
  "parseTrip exTripTable 2026 2 \<noteq> None \<and> dutyPeriods (the (parseTrip exTripTable 2026 2)) \<noteq> []"
proof -
  from exTripTable_parsed have some: "parseTrip exTripTable 2026 2 = Some (the (parseTrip exTripTable 2026 2))"
    by simp
  from trip_dutyPeriods_nonempty_iff [OF disjI1, OF some] exTripTable_leg_rows exTripTable_parsed
  show ?thesis by simp
qed

theorem trip_without_dutyPeriods_counterexample:
  "\<not> isSeparator exNoFlights \<and> isTripTable exNoFlights \<and>
   map_option dutyPeriods (parseTrip exNoFlights 2026 2) = Some [] \<and>
   map_option dutyPeriods (wv_parseTrip exNoFlights 2026 2) = Some []"
  by code_simp

text \<open>
  C3, as the code has it. In both parsers \<^verbatim>\<open>parseTrip\<close> returns no trip exactly when the
  table has fewer than two direct rows or the header pattern does not match the trimmed
  text of the first cell of the first row; for every table with two rows or more whose
  first cell matches, a trip is returned.
\<close>

theorem parseTrip_none_iff:
  "(parseTrip table refYear monthNumber = None \<longleftrightarrow>
      length (directRows table) < 2 \<or> matchStart tripRx (headerCellText table) = None) \<and>
   (wv_parseTrip table refYear monthNumber = None \<longleftrightarrow>
      length (directRows table) < 2 \<or> matchStart tripRx (headerCellText table) = None)"
  by (simp add: parseTrip_def wv_parseTrip_def headerCellText_def Let_def split: option.splits)

lemma exTripTable_header:
  "\<not> length (directRows exTripTable) < 2" "matchStart tripRx (headerCellText exTripTable) \<noteq> None"
  by code_simp+

theorem parseTrip_none_iff_witness:
  "\<not> length (directRows exTripTable) < 2 \<and> matchStart tripRx (headerCellText exTripTable) \<noteq> None \<and>
   parseTrip exTripTable 2026 2 \<noteq> None \<and> wv_parseTrip exTripTable 2026 2 \<noteq> None"
  using parseTrip_none_iff [of exTripTable 2026 2] exTripTable_header by simp

theorem header_matches_no_trip_counterexample:
  "matchStart tripRx (headerCellText exOneRow) = Some [''O4031'', ''01FEB''] \<and>
   parseTrip exOneRow 2026 2 = None \<and> wv_parseTrip exOneRow 2026 2 = None"
  by code_simp

subsection \<open>Facts about decimal digits\<close>

declare natDigits.simps [simp del]


















subsection \<open>Facts about the whole document\<close>

lemma headerOfText_empty:
  "headerOfText now [] =
     \<lparr>hdr_month = [], hdr_monthNumber = 0, hdr_year = now, hdr_crewMemberName = [],
      hdr_employeeNumber = [], hdr_lastUpdated = []\<rparr>"
  by code_simp

lemma parseHeader_no_heading:
  "findTag ''h3'' doc = [] \<Longrightarrow>
   parseHeader now doc =
     \<lparr>hdr_month = [], hdr_monthNumber = 0, hdr_year = now, hdr_crewMemberName = [],
      hdr_employeeNumber = [], hdr_lastUpdated = []\<rparr>"
  by (simp add: parseHeader_def firstText_def headerOfText_empty)

lemma itemStep_skip: "\<not> isContentBlock table \<Longrightarrow> itemStep refYear monthNumber acc table = acc"
  by (auto simp: isContentBlock_def itemStep_def)

lemma foldl_itemStep_skip:
  "\<not> list_ex isContentBlock tables \<Longrightarrow> foldl (itemStep refYear monthNumber) acc tables = acc"
  by (induction tables arbitrary: acc) (simp_all add: itemStep_skip)

lemma wv_itemStep_skip: "\<not> isContentBlock table \<Longrightarrow> wv_itemStep refYear monthNumber acc table = acc"
  by (auto simp: isContentBlock_def wv_itemStep_def)

lemma foldl_wv_itemStep_skip:
  "\<not> list_ex isContentBlock tables \<Longrightarrow> foldl (wv_itemStep refYear monthNumber) acc tables = acc"
  by (induction tables arbitrary: acc) (simp_all add: wv_itemStep_skip)

lemma summaryStep_skip: "\<not> anyTotalRow row \<Longrightarrow> summaryStep s row = s"
  by (auto simp: anyTotalRow_def totalRow_def rowValue_def summaryStep_def Let_def)

lemma foldl_summaryStep_skip: "\<not> list_ex anyTotalRow rows \<Longrightarrow> foldl summaryStep s rows = s"
  by (induction rows arbitrary: s) (simp_all add: summaryStep_skip)

text \<open>
  C9, as the code has it. \<^verbatim>\<open>parseScheduleDetail\<close> is a total function in both parsers:
  it returns a record for every document. For a document with no heading element the
  month, the crew member name, the employee number and the last-updated text are empty.
  For a document in which no content table classifies as a trip or an activity block the
  item list is empty. The summary is read from the sidebar alone: it is all zeros when no
  sidebar row assigns a total, whatever the content panel holds.
\<close>

theorem degraded_document:
  "(findTag ''h3'' doc = [] \<longrightarrow>
      month (parseScheduleDetail now doc) = [] \<and> crewMemberName (parseScheduleDetail now doc) = [] \<and>
      sched_employeeNumber (parseScheduleDetail now doc) = [] \<and>
      lastUpdated (parseScheduleDetail now doc) = [] \<and>
      month (wv_parseScheduleDetail now doc) = [] \<and> crewMemberName (wv_parseScheduleDetail now doc) = [] \<and>
      sched_employeeNumber (wv_parseScheduleDetail now doc) = [] \<and>
      lastUpdated (wv_parseScheduleDetail now doc) = []) \<and>
   (\<not> list_ex isContentBlock (contentTables doc) \<longrightarrow> items (parseScheduleDetail now doc) = []) \<and>
   (\<not> list_ex isContentBlock (wv_contentTables doc) \<longrightarrow> items (wv_parseScheduleDetail now doc) = []) \<and>
   (\<not> list_ex anyTotalRow (sidebarRows doc) \<longrightarrow> summary (parseScheduleDetail now doc) = zeroSummary) \<and>
   (\<not> list_ex anyTotalRow (wv_sidebarRows doc) \<longrightarrow>
      summary (wv_parseScheduleDetail now doc) = zeroSummary)"
proof -
  have h: "month (parseScheduleDetail now doc) = [] \<and> crewMemberName (parseScheduleDetail now doc) = [] \<and>
           sched_employeeNumber (parseScheduleDetail now doc) = [] \<and>
           lastUpdated (parseScheduleDetail now doc) = [] \<and>
           month (wv_parseScheduleDetail now doc) = [] \<and> crewMemberName (wv_parseScheduleDetail now doc) = [] \<and>
           sched_employeeNumber (wv_parseScheduleDetail now doc) = [] \<and>
           lastUpdated (wv_parseScheduleDetail now doc) = []"
    if "findTag ''h3'' doc = []"
    using parseHeader_no_heading [OF that, of now]
    by (simp add: parseScheduleDetail_def wv_parseScheduleDetail_def Let_def)
  have i: "items (parseScheduleDetail now doc) = []"
    if "\<not> list_ex isContentBlock (contentTables doc)"
    using foldl_itemStep_skip [OF that] by (simp add: parseScheduleDetail_def parseScheduleItems_def Let_def)
  have wi: "items (wv_parseScheduleDetail now doc) = []"
    if "\<not> list_ex isContentBlock (wv_contentTables doc)"
    using foldl_wv_itemStep_skip [OF that]
    by (simp add: wv_parseScheduleDetail_def wv_parseScheduleItems_def Let_def)
  have s: "summary (parseScheduleDetail now doc) = zeroSummary"
    if "\<not> list_ex anyTotalRow (sidebarRows doc)"
    using foldl_summaryStep_skip [OF that] by (simp add: parseScheduleDetail_def parseSummary_def Let_def)
  have ws: "summary (wv_parseScheduleDetail now doc) = zeroSummary"
    if "\<not> list_ex anyTotalRow (wv_sidebarRows doc)"
    using foldl_summaryStep_skip [OF that]
    by (simp add: wv_parseScheduleDetail_def wv_parseSummary_def Let_def)
  show ?thesis using h i wi s ws by blast
qed

lemma exEmptyDoc_facts:
  "findTag ''h3'' exEmptyDoc = []" "\<not> list_ex isContentBlock (contentTables exEmptyDoc)"
  "\<not> list_ex anyTotalRow (sidebarRows exEmptyDoc)"
  by code_simp+

theorem degraded_document_witness:
  "findTag ''h3'' exEmptyDoc = [] \<and> \<not> list_ex isContentBlock (contentTables exEmptyDoc) \<and>
   \<not> list_ex anyTotalRow (sidebarRows exEmptyDoc) \<and>
   month (parseScheduleDetail 2026 exEmptyDoc) = [] \<and>
   crewMemberName (parseScheduleDetail 2026 exEmptyDoc) = [] \<and>
   sched_employeeNumber (parseScheduleDetail 2026 exEmptyDoc) = [] \<and>
   lastUpdated (parseScheduleDetail 2026 exEmptyDoc) = [] \<and>
   items (parseScheduleDetail 2026 exEmptyDoc) = [] \<and>
   summary (parseScheduleDetail 2026 exEmptyDoc) = zeroSummary"
  using degraded_document [of exEmptyDoc 2026] exEmptyDoc_facts by simp

theorem no_blocks_nonzero_summary_counterexample:
  "\<not> list_ex isContentBlock (contentTables exSidebarDoc) \<and>
   items (parseScheduleDetail 2026 exSidebarDoc) = [] \<and>
   sum_block (summary (parseScheduleDetail 2026 exSidebarDoc)) = Finite (2551 / 50) \<and>
   summary (parseScheduleDetail 2026 exSidebarDoc) \<noteq> zeroSummary \<and>
   summary (wv_parseScheduleDetail 2026 exSidebarDoc) \<noteq> zeroSummary"
  by code_simp

text \<open>
  C1. The two parsers do not agree on every document. On \<open>exDriftDoc\<close>, whose heading
  names a month that is not in \<^verbatim>\<open>MONTH_NAMES\<close> (month number \<open>-1\<close>) and whose trip has
  a month abbreviation that is not in \<^verbatim>\<open>MONTH_MAP\<close>, the server-side parser pads the
  month with \<^verbatim>\<open>padStart\<close> and the script with its own \<^verbatim>\<open>pad2\<close>, and the two dates
  differ.
\<close>

theorem parsers_differ_on_unresolved_month:
  "itemDates (items (parseScheduleDetail 2030 exDriftDoc)) = [''2026--1-01''] \<and>
   itemDates (items (wv_parseScheduleDetail 2030 exDriftDoc)) = [''2026-0-1-01''] \<and>
   parseScheduleDetail 2030 exDriftDoc \<noteq> wv_parseScheduleDetail 2030 exDriftDoc"
proof -
  have a: "itemDates (items (parseScheduleDetail 2030 exDriftDoc)) = [''2026--1-01'']"
    by code_simp
  have b: "itemDates (items (wv_parseScheduleDetail 2030 exDriftDoc)) = [''2026-0-1-01'']"
    by code_simp
  from a b have "parseScheduleDetail 2030 exDriftDoc \<noteq> wv_parseScheduleDetail 2030 exDriftDoc"
    by auto
  with a b show ?thesis by simp
qed

text \<open>
  A second place where the two differ: the server-side parser reads the rows of every
  table with the id or the name \<^verbatim>\<open>table2\<close>, the script those of one element only.
\<close>

lemma parsers_differ_on_two_sidebars:
  "sum_block (summary (parseScheduleDetail 2030 exTwoSidebarsDoc)) = Finite (2159 / 50) \<and>
   sum_block (summary (wv_parseScheduleDetail 2030 exTwoSidebarsDoc)) = Finite 0"
  by code_simp

end
